theory Spec2Isabelle
  imports Main "HOL-Library.Word" "HOL-Library.Sublist"
begin

unbundle bit_operations_syntax

section \<open>Data model of the baytrail power sequencer (src/src/power/baytrail.c)\<close>

text \<open>
  \<^verbatim>\<open>enum power_state\<close>: the four steady states and the six transitional ones that
  \<^verbatim>\<open>power_handle_state\<close> switches over.
\<close>

datatype power_state =
    POWER_G3 | POWER_S5 | POWER_S3 | POWER_S0
  | POWER_G3S5 | POWER_S5S3 | POWER_S3S0 | POWER_S0S3 | POWER_S3S5 | POWER_S5G3

text \<open>The power signals that baytrail.c names through \<^verbatim>\<open>POWER_SIGNAL_MASK\<close>.\<close>

datatype power_signal =
    X86_PGOOD_PP5000 | X86_PGOOD_PP1050 | X86_PGOOD_S5 | X86_PGOOD_VCORE
  | X86_SLP_S3_DEASSERTED | X86_SLP_S4_DEASSERTED

text \<open>The GPIO lines that baytrail.c reads or drives.\<close>

datatype gpio_signal =
    GPIO_PCH_SYS_PWROK | GPIO_PCH_CORE_PWROK | GPIO_PCH_RSMRST_L | GPIO_PCH_RCIN_L
  | GPIO_PCH_SLP_S3_L | GPIO_PCH_SLP_S4_L
  | GPIO_CPU_PROCHOT | GPIO_VCORE_EN | GPIO_SUSP_VR_EN | GPIO_PP1350_EN
  | GPIO_PP3300_DX_EN | GPIO_PP5000_EN | GPIO_TOUCHSCREEN_RESET_L | GPIO_ENABLE_TOUCHPAD

datatype hook_type =
  HOOK_CHIPSET_STARTUP | HOOK_CHIPSET_RESUME | HOOK_CHIPSET_SUSPEND | HOOK_CHIPSET_SHUTDOWN

datatype wireless_power_state = WIRELESS_OFF | WIRELESS_SUSPEND | WIRELESS_ON

datatype sleep_mask = SLEEP_MASK_AP_RUN

datatype ec_error_list = EC_SUCCESS | EC_ERROR_TIMEOUT | EC_ERROR_INVAL

text \<open>
  Every call the module makes to a collaborator is recorded, in program order, as one
  event.  A console line is kept as its format string and its arguments.
\<close>

datatype print_arg = ArgStr string | ArgInt int

datatype event =
    Gpio_set gpio_signal int
  | Cprints string "print_arg list"
  | Ccprintf string "print_arg list"
  | Msleep nat
  | Usleep nat
  | Udelay nat
  | Hook_notify hook_type
  | Wireless_set wireless_power_state
  | Disable_sleep sleep_mask
  | Enable_sleep sleep_mask
  | Power_button_pch_release
  | Power_button_pch_pulse

text \<open>
  The module's four static flags, the pin levels, and what the collaborators report.
  \<^item> \<open>gpio\<close>: the level of every line (\<open>True\<close> is high); \<^verbatim>\<open>gpio_set_level\<close> writes it,
    \<^verbatim>\<open>gpio_get_level\<close> reads it.
  \<^item> \<open>in_signals\<close>: the live power signal mask; \<open>signal_feed\<close>: the masks the signal
    source has latched when each later \<^verbatim>\<open>power_wait_signals\<close> returns.
  \<^item> \<open>pltrst_asserted i\<close>: what \<^verbatim>\<open>lpc_get_pltrst_asserted()\<close> reports at the poll with
    loop index \<open>i\<close>.
  \<^item> \<open>lid_open\<close>, \<open>jumped_to_this_image\<close>, \<open>usb_ports_enabled\<close>: the answers of
    \<^verbatim>\<open>lid_is_open()\<close>, \<^verbatim>\<open>system_jumped_to_this_image()\<close> and
    \<^verbatim>\<open>usb_charge_ports_enabled()\<close>; \<open>config_usb_port_power_in_s3\<close>: whether
    \<^verbatim>\<open>CONFIG_USB_PORT_POWER_IN_S3\<close> is defined.
  \<^item> \<open>trace\<close>: the events so far.
\<close>

record world =
  throttle_cpu :: int
  pause_in_s5 :: int
  restart_from_s5 :: int
  fake_pltrst_timeout :: int
  gpio :: "gpio_signal \<Rightarrow> bool"
  in_signals :: "32 word"
  signal_feed :: "32 word list"
  pltrst_asserted :: "nat \<Rightarrow> bool"
  lid_open :: bool
  jumped_to_this_image :: bool
  usb_ports_enabled :: bool
  config_usb_port_power_in_s3 :: bool
  trace :: "event list"

section \<open>Collaborators\<close>

definition emit :: "event \<Rightarrow> world \<Rightarrow> world" where
  "emit e w = w\<lparr>trace := trace w @ [e]\<rparr>"

text \<open>
  \<^verbatim>\<open>gpio_set_level\<close> and \<^verbatim>\<open>gpio_get_level\<close> as in chip/stm32/gpio-stm32f.c and
  chip/it83xx/gpio.c: any non-zero value drives the line high, and a read gives 0 or 1.
\<close>

definition gpio_set_level :: "gpio_signal \<Rightarrow> int \<Rightarrow> world \<Rightarrow> world" where
  "gpio_set_level signal v w =
     emit (Gpio_set signal v) (w\<lparr>gpio := (gpio w)(signal := (v \<noteq> 0))\<rparr>)"

definition gpio_get_level :: "gpio_signal \<Rightarrow> world \<Rightarrow> int" where
  "gpio_get_level signal w = (if gpio w signal then 1 else 0)"

definition cprints :: "string \<Rightarrow> print_arg list \<Rightarrow> world \<Rightarrow> world" where
  "cprints fmt args w = emit (Cprints fmt args) w"

definition ccprintf :: "string \<Rightarrow> print_arg list \<Rightarrow> world \<Rightarrow> world" where
  "ccprintf fmt args w = emit (Ccprintf fmt args) w"

definition MSEC :: nat where
  "MSEC = 1000"

definition msleep :: "nat \<Rightarrow> world \<Rightarrow> world" where
  "msleep ms w = emit (Msleep ms) w"

definition usleep :: "nat \<Rightarrow> world \<Rightarrow> world" where
  "usleep us w = emit (Usleep us) w"

definition udelay :: "nat \<Rightarrow> world \<Rightarrow> world" where
  "udelay us w = emit (Udelay us) w"

definition hook_notify :: "hook_type \<Rightarrow> world \<Rightarrow> world" where
  "hook_notify h w = emit (Hook_notify h) w"

definition wireless_set_state :: "wireless_power_state \<Rightarrow> world \<Rightarrow> world" where
  "wireless_set_state s w = emit (Wireless_set s) w"

definition disable_sleep :: "sleep_mask \<Rightarrow> world \<Rightarrow> world" where
  "disable_sleep m w = emit (Disable_sleep m) w"

definition enable_sleep :: "sleep_mask \<Rightarrow> world \<Rightarrow> world" where
  "enable_sleep m w = emit (Enable_sleep m) w"

definition power_button_pch_release :: "world \<Rightarrow> world" where
  "power_button_pch_release w = emit Power_button_pch_release w"

definition power_button_pch_pulse :: "world \<Rightarrow> world" where
  "power_button_pch_pulse w = emit Power_button_pch_pulse w"

definition lid_is_open :: "world \<Rightarrow> int" where
  "lid_is_open w = (if lid_open w then 1 else 0)"

definition system_jumped_to_this_image :: "world \<Rightarrow> bool" where
  "system_jumped_to_this_image w = jumped_to_this_image w"

definition usb_charge_ports_enabled :: "world \<Rightarrow> bool" where
  "usb_charge_ports_enabled w = usb_ports_enabled w"

definition lpc_get_pltrst_asserted :: "nat \<Rightarrow> world \<Rightarrow> bool" where
  "lpc_get_pltrst_asserted i w = pltrst_asserted w i"

text \<open>
  Modelled from the spec: \<^verbatim>\<open>power_get_signals\<close>, \<^verbatim>\<open>power_has_signals\<close> and
  \<^verbatim>\<open>power_wait_signals\<close> live in power/common.c, which is not under src/.  The spec's
  signal source gives \<open>read_signals()\<close> as a side-effect-free snapshot of the mask,
  \<open>has_all(mask, required)\<close> as true iff every bit of \<open>required\<close> is set in the mask, and
  \<open>wait_all(required, timeout)\<close> as blocking until all bits of \<open>required\<close> are set or the
  timeout elapses, returning success or timeout and never partial.  The mask seen when
  a wait returns is the next one of \<open>signal_feed\<close>; when none is left the mask stays as
  it is.
\<close>

definition power_get_signals :: "world \<Rightarrow> 32 word" where
  "power_get_signals w = in_signals w"

definition power_has_signals :: "32 word \<Rightarrow> world \<Rightarrow> bool" where
  "power_has_signals want w = ((in_signals w AND want) = want)"

definition power_wait_signals :: "32 word \<Rightarrow> world \<Rightarrow> ec_error_list \<times> world" where
  "power_wait_signals want w =
     (let w = (case signal_feed w of
                 [] \<Rightarrow> w
               | m # ms \<Rightarrow> w\<lparr>in_signals := m, signal_feed := ms\<rparr>)
      in (if (in_signals w AND want) = want then EC_SUCCESS else EC_ERROR_TIMEOUT, w))"

section \<open>Input state flags\<close>

text \<open>
  \<^verbatim>\<open>POWER_SIGNAL_MASK(signal)\<close> is \<^verbatim>\<open>1 << signal\<close>.  The numbering of
  \<^verbatim>\<open>enum power_signal\<close> is the board's (board.h, not under src/), so it is the
  parameter \<open>b\<close> of every mask.
\<close>

definition POWER_SIGNAL_MASK :: "(power_signal \<Rightarrow> nat) \<Rightarrow> power_signal \<Rightarrow> 32 word" where
  "POWER_SIGNAL_MASK b s = push_bit (b s) 1"

definition IN_PGOOD_PP5000 :: "(power_signal \<Rightarrow> nat) \<Rightarrow> 32 word" where
  "IN_PGOOD_PP5000 b = POWER_SIGNAL_MASK b X86_PGOOD_PP5000"

definition IN_PGOOD_PP1050 :: "(power_signal \<Rightarrow> nat) \<Rightarrow> 32 word" where
  "IN_PGOOD_PP1050 b = POWER_SIGNAL_MASK b X86_PGOOD_PP1050"

definition IN_PGOOD_S5 :: "(power_signal \<Rightarrow> nat) \<Rightarrow> 32 word" where
  "IN_PGOOD_S5 b = POWER_SIGNAL_MASK b X86_PGOOD_S5"

definition IN_PGOOD_VCORE :: "(power_signal \<Rightarrow> nat) \<Rightarrow> 32 word" where
  "IN_PGOOD_VCORE b = POWER_SIGNAL_MASK b X86_PGOOD_VCORE"

definition IN_SLP_S3_DEASSERTED :: "(power_signal \<Rightarrow> nat) \<Rightarrow> 32 word" where
  "IN_SLP_S3_DEASSERTED b = POWER_SIGNAL_MASK b X86_SLP_S3_DEASSERTED"

definition IN_SLP_S4_DEASSERTED :: "(power_signal \<Rightarrow> nat) \<Rightarrow> 32 word" where
  "IN_SLP_S4_DEASSERTED b = POWER_SIGNAL_MASK b X86_SLP_S4_DEASSERTED"

definition IN_PGOOD_ALWAYS_ON :: "(power_signal \<Rightarrow> nat) \<Rightarrow> 32 word" where
  "IN_PGOOD_ALWAYS_ON b = IN_PGOOD_S5 b"

definition IN_PGOOD_ALL_NONCORE :: "(power_signal \<Rightarrow> nat) \<Rightarrow> 32 word" where
  "IN_PGOOD_ALL_NONCORE b = IN_PGOOD_PP5000 b"

definition IN_PGOOD_ALL_CORE :: "(power_signal \<Rightarrow> nat) \<Rightarrow> 32 word" where
  "IN_PGOOD_ALL_CORE b = IN_PGOOD_VCORE b"

definition IN_PGOOD_S3 :: "(power_signal \<Rightarrow> nat) \<Rightarrow> 32 word" where
  "IN_PGOOD_S3 b = IN_PGOOD_ALWAYS_ON b"

definition IN_PGOOD_S0 :: "(power_signal \<Rightarrow> nat) \<Rightarrow> 32 word" where
  "IN_PGOOD_S0 b = IN_PGOOD_ALWAYS_ON b OR IN_PGOOD_ALL_NONCORE b"

definition IN_ALL_PM_SLP_DEASSERTED :: "(power_signal \<Rightarrow> nat) \<Rightarrow> 32 word" where
  "IN_ALL_PM_SLP_DEASSERTED b = IN_SLP_S3_DEASSERTED b OR IN_SLP_S4_DEASSERTED b"

definition IN_ALL_S0 :: "(power_signal \<Rightarrow> nat) \<Rightarrow> 32 word" where
  "IN_ALL_S0 b =
     IN_PGOOD_ALWAYS_ON b OR IN_PGOOD_ALL_NONCORE b OR
     IN_PGOOD_ALL_CORE b OR IN_ALL_PM_SLP_DEASSERTED b"

section \<open>The module's functions\<close>

definition chipset_force_shutdown :: "world \<Rightarrow> world" where
  "chipset_force_shutdown w =
     (let w = cprints ''%s()'' [ArgStr ''chipset_force_shutdown''] w;
          w = gpio_set_level GPIO_PCH_SYS_PWROK 0 w;
          w = gpio_set_level GPIO_PCH_RSMRST_L 0 w
      in w)"

definition chipset_reset :: "int \<Rightarrow> world \<Rightarrow> world" where
  "chipset_reset cold_reset w =
     (let w = cprints ''%s(%d)'' [ArgStr ''chipset_reset'', ArgInt cold_reset] w
      in if cold_reset \<noteq> 0 then
           (if gpio_get_level GPIO_PCH_SYS_PWROK w = 0 then w
            else
              (let w = gpio_set_level GPIO_PCH_SYS_PWROK 0 w;
                   w = udelay 100 w;
                   w = gpio_set_level GPIO_PCH_SYS_PWROK 1 w
               in w))
         else
           (let w = gpio_set_level GPIO_PCH_RCIN_L 0 w;
                w = usleep (32 * MSEC) w;
                w = gpio_set_level GPIO_PCH_RCIN_L 1 w
            in w))"

definition power_chipset_init :: "(power_signal \<Rightarrow> nat) \<Rightarrow> world \<Rightarrow> power_state \<times> world" where
  "power_chipset_init b w =
     (if system_jumped_to_this_image w then
        (if (power_get_signals w AND IN_ALL_S0 b) = IN_ALL_S0 b then
           (let w = disable_sleep SLEEP_MASK_AP_RUN w;
                w = cprints ''already in S0'' [] w
            in (POWER_S0, w))
         else
           (let w = cprints ''forcing G3'' [] w;
                w = gpio_set_level GPIO_PCH_CORE_PWROK 0 w;
                w = gpio_set_level GPIO_VCORE_EN 0 w;
                w = gpio_set_level GPIO_SUSP_VR_EN 0 w;
                w = gpio_set_level GPIO_PP1350_EN 0 w;
                w = gpio_set_level GPIO_PP3300_DX_EN 0 w;
                w = gpio_set_level GPIO_PP5000_EN 0 w;
                w = gpio_set_level GPIO_PCH_RSMRST_L 0 w;
                w = gpio_set_level GPIO_PCH_SYS_PWROK 0 w;
                w = wireless_set_state WIRELESS_OFF w
            in (POWER_G3, w)))
      else (POWER_G3, w))"

text \<open>
  The poll of the S3->S0 edge: \<^verbatim>\<open>for (i = 0; i < 50; i++) { usleep(MSEC); if
  (!lpc_get_pltrst_asserted()) break; }\<close>, returning the final \<open>i\<close>.
\<close>

function pltrst_poll :: "int \<Rightarrow> world \<Rightarrow> int \<times> world" where
  "pltrst_poll i w =
     (if i < 50 then
        (let w = usleep MSEC w
         in if \<not> lpc_get_pltrst_asserted (nat i) w then (i, w)
            else pltrst_poll (i + 1) w)
      else (i, w))"
  by pat_completeness auto
termination
  by (relation "measure (\<lambda>(i, w). nat (50 - i))") auto

declare pltrst_poll.simps [simp del]

fun power_handle_state :: "(power_signal \<Rightarrow> nat) \<Rightarrow> power_state \<Rightarrow> world \<Rightarrow> power_state \<times> world" where
  "power_handle_state b POWER_G3 w = (POWER_G3, w)"
| "power_handle_state b POWER_S5 w =
     (if gpio_get_level GPIO_PCH_SLP_S4_L w = 1 then (POWER_S5S3, w)
      else (POWER_S5, w))"
| "power_handle_state b POWER_S3 w =
     (let w = gpio_set_level GPIO_TOUCHSCREEN_RESET_L (lid_is_open w) w
      in if \<not> power_has_signals (IN_PGOOD_S3 b) w then
           (let w = chipset_force_shutdown w in (POWER_S3S5, w))
         else if gpio_get_level GPIO_PCH_SLP_S3_L w = 1 then (POWER_S3S0, w)
         else if gpio_get_level GPIO_PCH_SLP_S4_L w = 0 then (POWER_S3S5, w)
         else (POWER_S3, w))"
| "power_handle_state b POWER_S0 w =
     (if \<not> power_has_signals (IN_PGOOD_S0 b) w then
        (let w = chipset_force_shutdown w in (POWER_S0S3, w))
      else if gpio_get_level GPIO_PCH_SLP_S3_L w = 0 then (POWER_S0S3, w)
      else (POWER_S0, w))"
| "power_handle_state b POWER_G3S5 w =
     (let w = msleep 10 w;
          w = gpio_set_level GPIO_SUSP_VR_EN 1 w;
          (rv, w) = power_wait_signals (IN_PGOOD_S5 b) w
      in if rv \<noteq> EC_SUCCESS then
           (let w = gpio_set_level GPIO_SUSP_VR_EN 0 w;
                w = chipset_force_shutdown w
            in (POWER_G3, w))
         else
           (let w = gpio_set_level GPIO_PCH_RSMRST_L 1 w;
                w = msleep 10 w
            in (POWER_S5, w)))"
| "power_handle_state b POWER_S5S3 w =
     (let (rv, w) = power_wait_signals (IN_PGOOD_ALWAYS_ON b) w
      in if rv \<noteq> EC_SUCCESS then
           (let w = chipset_force_shutdown w in (POWER_S5G3, w))
         else
           (let w = gpio_set_level GPIO_PP1350_EN 1 w;
                (rv, w) = power_wait_signals (IN_PGOOD_S3 b) w
            in if rv \<noteq> EC_SUCCESS then
                 (let w = chipset_force_shutdown w in (POWER_S5G3, w))
               else
                 (let w = gpio_set_level GPIO_ENABLE_TOUCHPAD 1 w;
                      w = hook_notify HOOK_CHIPSET_STARTUP w
                  in (POWER_S3, w))))"
| "power_handle_state b POWER_S3S0 w =
     (let w = gpio_set_level GPIO_PP5000_EN 1 w;
          w = usleep (3 * MSEC) w;
          w = gpio_set_level GPIO_PP3300_DX_EN 1 w;
          w = wireless_set_state WIRELESS_ON w;
          w = gpio_set_level GPIO_TOUCHSCREEN_RESET_L 1 w;
          (rv, w) = power_wait_signals (IN_PGOOD_S0 b) w
      in if rv \<noteq> EC_SUCCESS then
           (let w = chipset_force_shutdown w;
                w = wireless_set_state WIRELESS_OFF w;
                w = gpio_set_level GPIO_PP3300_DX_EN 0 w;
                w = gpio_set_level GPIO_PP5000_EN 0 w;
                w = gpio_set_level GPIO_TOUCHSCREEN_RESET_L 0 w
            in (POWER_S3, w))
         else
           (let w = gpio_set_level GPIO_VCORE_EN 1 w;
                w = hook_notify HOOK_CHIPSET_RESUME w;
                w = disable_sleep SLEEP_MASK_AP_RUN w;
                w = msleep 15 w;
                w = gpio_set_level GPIO_CPU_PROCHOT (throttle_cpu w) w;
                w = gpio_set_level GPIO_PCH_SYS_PWROK 1 w;
                w = gpio_set_level GPIO_PCH_CORE_PWROK 1 w;
                (i, w) = pltrst_poll 0 w
            in if i < 50 \<and> fake_pltrst_timeout w = 0 then
                 (let w = cprints ''power PLTRST# deasserted'' [] w in (POWER_S0, w))
               else
                 (let w = cprints ''power PLTRST# timeout'' [] w;
                      w = power_button_pch_release w;
                      w = chipset_force_shutdown w;
                      w = w\<lparr>restart_from_s5 := 1\<rparr>;
                      w = w\<lparr>fake_pltrst_timeout := 0\<rparr>
                  in (POWER_S0, w))))"
| "power_handle_state b POWER_S0S3 w =
     (let w = hook_notify HOOK_CHIPSET_SUSPEND w;
          w = gpio_set_level GPIO_PCH_SYS_PWROK 0 w;
          w = gpio_set_level GPIO_PCH_CORE_PWROK 0 w;
          w = udelay 1 w;
          w = gpio_set_level GPIO_VCORE_EN 0 w;
          w = wireless_set_state WIRELESS_SUSPEND w;
          w = enable_sleep SLEEP_MASK_AP_RUN w;
          w = gpio_set_level GPIO_CPU_PROCHOT 0 w;
          w = msleep 7 w;
          w = gpio_set_level GPIO_PP3300_DX_EN 0 w;
          w = (if config_usb_port_power_in_s3 w then
                 (if \<not> usb_charge_ports_enabled w then gpio_set_level GPIO_PP5000_EN 0 w
                  else w)
               else gpio_set_level GPIO_PP5000_EN 0 w)
      in (POWER_S3, w))"
| "power_handle_state b POWER_S3S5 w =
     (let w = hook_notify HOOK_CHIPSET_SHUTDOWN w;
          w = gpio_set_level GPIO_PP5000_EN 0 w;
          w = wireless_set_state WIRELESS_OFF w;
          w = gpio_set_level GPIO_ENABLE_TOUCHPAD 0 w;
          w = gpio_set_level GPIO_TOUCHSCREEN_RESET_L 0 w;
          w = gpio_set_level GPIO_PP1350_EN 0 w
      in if restart_from_s5 w \<noteq> 0 then
           (let w = cprints ''power restart from S5'' [] w;
                w = w\<lparr>restart_from_s5 := 0\<rparr>;
                w = msleep 100 w;
                w = power_button_pch_pulse w
            in (POWER_G3S5, w))
         else (if pause_in_s5 w \<noteq> 0 then POWER_S5 else POWER_S5G3, w))"
| "power_handle_state b POWER_S5G3 w =
     (let w = gpio_set_level GPIO_PCH_RSMRST_L 0 w;
          w = gpio_set_level GPIO_SUSP_VR_EN 0 w
      in (POWER_G3, w))"

text \<open>
  Modelled from the spec: \<^verbatim>\<open>parse_bool\<close> (common/util.c) is not under src/.  A
  parser \<open>pb\<close> stands for it: \<open>pb s = Some v\<close> when the call stores \<open>v\<close> through its second
  argument and returns non-zero, \<open>pb s = None\<close> when it returns 0 and stores nothing,
  which is how the spec's command boundary rejects an invalid tunable.
\<close>

type_synonym bool_parser = "string \<Rightarrow> int option"

text \<open>
  \<^verbatim>\<open>console_command_gsv\<close>, the handler of the \<^verbatim>\<open>pause_in_s5\<close> console command; \<open>argc\<close>
  is the length of \<open>argv\<close>, and \<^verbatim>\<open>parse_bool\<close> writes straight into \<^verbatim>\<open>pause_in_s5\<close>.
\<close>

definition console_command_gsv ::
    "bool_parser \<Rightarrow> string list \<Rightarrow> world \<Rightarrow> ec_error_list \<times> world" where
  "console_command_gsv pb argv w =
     (let (rejected, w) =
            (if 1 < length argv then
               (case pb (argv ! 1) of
                  None \<Rightarrow> (True, w)
                | Some v \<Rightarrow> (False, w\<lparr>pause_in_s5 := v\<rparr>))
             else (False, w))
      in if rejected then (EC_ERROR_INVAL, w)
         else
           (let w = ccprintf ''pause_in_s5 = %s\<newline>''
                      [ArgStr (if pause_in_s5 w \<noteq> 0 then ''on'' else ''off'')] w
            in (EC_SUCCESS, w)))"

section \<open>Notions the properties are stated with\<close>

text \<open>The events a call appended to the trace, and the GPIO writes among them.\<close>

definition new_events :: "world \<Rightarrow> world \<Rightarrow> event list" where
  "new_events w w' = drop (length (trace w)) (trace w')"

fun gpio_writes :: "event list \<Rightarrow> (gpio_signal \<times> int) list" where
  "gpio_writes [] = []"
| "gpio_writes (Gpio_set signal v # es) = (signal, v) # gpio_writes es"
| "gpio_writes (e # es) = gpio_writes es"

text \<open>What one call of \<^verbatim>\<open>chipset_force_shutdown\<close> leaves in the trace.\<close>

definition force_shutdown_events :: "event list" where
  "force_shutdown_events =
     [Cprints ''%s()'' [ArgStr ''chipset_force_shutdown''],
      Gpio_set GPIO_PCH_SYS_PWROK 0,
      Gpio_set GPIO_PCH_RSMRST_L 0]"

text \<open>
  How far on a state is: the steady states in the order G3, S5, S3, S0 of the spec's
  data model, each transitional state between the two steady states it joins.
\<close>

fun on_rank :: "power_state \<Rightarrow> nat" where
  "on_rank POWER_G3 = 0"
| "on_rank POWER_S5G3 = 1"
| "on_rank POWER_G3S5 = 1"
| "on_rank POWER_S5 = 2"
| "on_rank POWER_S3S5 = 3"
| "on_rank POWER_S5S3 = 3"
| "on_rank POWER_S3 = 4"
| "on_rank POWER_S0S3 = 5"
| "on_rank POWER_S3S0 = 5"
| "on_rank POWER_S0 = 6"

text \<open>
  The faults of the spec's fault policy: a required rail absent in a steady state, or
  a \<^verbatim>\<open>power_wait_signals\<close> of a transitional script timing out; and the state each
  is said to lead to.
\<close>

fun fault_detected :: "(power_signal \<Rightarrow> nat) \<Rightarrow> power_state \<Rightarrow> world \<Rightarrow> bool" where
  "fault_detected b POWER_S3 w = (\<not> power_has_signals (IN_PGOOD_S3 b) w)"
| "fault_detected b POWER_S0 w = (\<not> power_has_signals (IN_PGOOD_S0 b) w)"
| "fault_detected b POWER_G3S5 w =
     (fst (power_wait_signals (IN_PGOOD_S5 b) w) \<noteq> EC_SUCCESS)"
| "fault_detected b POWER_S5S3 w =
     (fst (power_wait_signals (IN_PGOOD_ALWAYS_ON b) w) \<noteq> EC_SUCCESS \<or>
      fst (power_wait_signals (IN_PGOOD_S3 b)
             (snd (power_wait_signals (IN_PGOOD_ALWAYS_ON b) w))) \<noteq> EC_SUCCESS)"
| "fault_detected b POWER_S3S0 w =
     (fst (power_wait_signals (IN_PGOOD_S0 b) w) \<noteq> EC_SUCCESS)"
| "fault_detected b s w = False"

fun fault_target :: "power_state \<Rightarrow> power_state" where
  "fault_target POWER_S3 = POWER_S3S5"
| "fault_target POWER_S0 = POWER_S0S3"
| "fault_target POWER_G3S5 = POWER_G3"
| "fault_target POWER_S5S3 = POWER_S5G3"
| "fault_target POWER_S3S0 = POWER_S3"
| "fault_target s = s"

text \<open>
  The conditions of the spec's transition table under which a state is left: a steady
  state on its listed conditions, a transitional state always.
\<close>

fun outgoing_condition :: "(power_signal \<Rightarrow> nat) \<Rightarrow> power_state \<Rightarrow> world \<Rightarrow> bool" where
  "outgoing_condition b POWER_G3 w = False"
| "outgoing_condition b POWER_S5 w = gpio w GPIO_PCH_SLP_S4_L"
| "outgoing_condition b POWER_S3 w =
     (\<not> power_has_signals (IN_PGOOD_S3 b) w \<or> gpio w GPIO_PCH_SLP_S3_L \<or>
      \<not> gpio w GPIO_PCH_SLP_S4_L)"
| "outgoing_condition b POWER_S0 w =
     (\<not> power_has_signals (IN_PGOOD_S0 b) w \<or> \<not> gpio w GPIO_PCH_SLP_S3_L)"
| "outgoing_condition b s w = True"

definition power_states :: "power_state list" where
  "power_states =
     [POWER_G3, POWER_S5, POWER_S3, POWER_S0, POWER_G3S5, POWER_S5S3, POWER_S3S0,
      POWER_S0S3, POWER_S3S5, POWER_S5G3]"

text \<open>The control loop's repetition: each call sees the state the previous one returned.\<close>

fun repeat_handle_state ::
    "(power_signal \<Rightarrow> nat) \<Rightarrow> nat \<Rightarrow> power_state \<Rightarrow> world \<Rightarrow> power_state \<times> world" where
  "repeat_handle_state b 0 s w = (s, w)"
| "repeat_handle_state b (Suc n) s w =
     (case power_handle_state b s w of (s', w') \<Rightarrow> repeat_handle_state b n s' w')"

text \<open>The rail and reset writes with which the S3->S5 edge begins, before it chooses its exit.\<close>

definition s3s5_shutdown_events :: "event list" where
  "s3s5_shutdown_events =
     [Hook_notify HOOK_CHIPSET_SHUTDOWN,
      Gpio_set GPIO_PP5000_EN 0,
      Wireless_set WIRELESS_OFF,
      Gpio_set GPIO_ENABLE_TOUCHPAD 0,
      Gpio_set GPIO_TOUCHSCREEN_RESET_L 0,
      Gpio_set GPIO_PP1350_EN 0]"

text \<open>
  The control loop between two calls.  \<^verbatim>\<open>restart_from_s5\<close> is written by
  \<^verbatim>\<open>power_handle_state\<close> alone; everything else (the signal mask, the lines, what the
  collaborators report, the tunables a command sets) may have changed when the next call
  is made.  \<open>env_step v w\<close> is the world \<open>w\<close> after such a change to \<open>v\<close>.
\<close>

definition env_step :: "world \<Rightarrow> world \<Rightarrow> world" where
  "env_step v w = v\<lparr>restart_from_s5 := restart_from_s5 w, trace := trace w\<rparr>"

text \<open>
  The loop run on from state \<open>s\<close>, one environment change before each call, until the
  state to handle next is \<^verbatim>\<open>POWER_S3S5\<close> or the changes are used up.
\<close>

fun run_to_S3S5 ::
    "(power_signal \<Rightarrow> nat) \<Rightarrow> world list \<Rightarrow> power_state \<Rightarrow> world \<Rightarrow> power_state \<times> world" where
  "run_to_S3S5 b [] s w = (s, w)"
| "run_to_S3S5 b (v # vs) s w =
     (if s = POWER_S3S5 then (s, w)
      else (case power_handle_state b s (env_step v w) of
              (s', w') \<Rightarrow> run_to_S3S5 b vs s' w'))"

section \<open>Concrete inputs\<close>

text \<open>
  One numbering of the power signals, and worlds built on it: the module as it starts
  (fully off, \<^verbatim>\<open>pause_in_s5 = 1\<close>), a machine suspended in S3, and one running in S0.
\<close>

fun example_signal_bit :: "power_signal \<Rightarrow> nat" where
  "example_signal_bit X86_PGOOD_PP5000 = 0"
| "example_signal_bit X86_PGOOD_PP1050 = 1"
| "example_signal_bit X86_PGOOD_S5 = 2"
| "example_signal_bit X86_PGOOD_VCORE = 3"
| "example_signal_bit X86_SLP_S3_DEASSERTED = 4"
| "example_signal_bit X86_SLP_S4_DEASSERTED = 5"

definition lines_G3 :: "gpio_signal \<Rightarrow> bool" where
  "lines_G3 signal = False"

definition lines_S3 :: "gpio_signal \<Rightarrow> bool" where
  "lines_S3 signal =
     (signal = GPIO_PCH_RSMRST_L \<or> signal = GPIO_PCH_RCIN_L \<or> signal = GPIO_PCH_SLP_S4_L \<or>
      signal = GPIO_SUSP_VR_EN \<or> signal = GPIO_PP1350_EN \<or> signal = GPIO_ENABLE_TOUCHPAD)"

definition lines_S0 :: "gpio_signal \<Rightarrow> bool" where
  "lines_S0 signal = (signal \<noteq> GPIO_CPU_PROCHOT)"

definition never_asserted :: "nat \<Rightarrow> bool" where
  "never_asserted i = False"

definition always_asserted :: "nat \<Rightarrow> bool" where
  "always_asserted i = True"

definition world_G3 :: world where
  "world_G3 =
     \<lparr>throttle_cpu = 0, pause_in_s5 = 1, restart_from_s5 = 0, fake_pltrst_timeout = 0,
      gpio = lines_G3, in_signals = 0, signal_feed = [], pltrst_asserted = never_asserted,
      lid_open = True, jumped_to_this_image = False, usb_ports_enabled = False,
      config_usb_port_power_in_s3 = False, trace = []\<rparr>"

definition world_S3 :: world where
  "world_S3 =
     world_G3\<lparr>gpio := lines_S3,
              in_signals := IN_PGOOD_S5 example_signal_bit OR
                            IN_SLP_S4_DEASSERTED example_signal_bit\<rparr>"

definition world_S0 :: world where
  "world_S0 = world_G3\<lparr>gpio := lines_S0, in_signals := IN_ALL_S0 example_signal_bit\<rparr>"

text \<open>Running in S0 with only the core rail's power-good gone.\<close>

definition world_vcore_lost :: world where
  "world_vcore_lost =
     world_S0\<lparr>in_signals := IN_PGOOD_S5 example_signal_bit OR
                             IN_PGOOD_PP5000 example_signal_bit OR
                             IN_ALL_PM_SLP_DEASSERTED example_signal_bit\<rparr>"

text \<open>Running in S0 with the 5 V rail's power-good gone.\<close>

definition world_pp5000_lost :: world where
  "world_pp5000_lost =
     world_S0\<lparr>in_signals := IN_PGOOD_S5 example_signal_bit OR
                             IN_PGOOD_VCORE example_signal_bit OR
                             IN_ALL_PM_SLP_DEASSERTED example_signal_bit\<rparr>"

text \<open>
  Entering the S3->S0 edge: the non-core rails come up during the wait, and the
  platform reset then stays asserted at every poll.
\<close>

definition world_pltrst_stuck :: world where
  "world_pltrst_stuck =
     world_S3\<lparr>gpio := lines_S3(GPIO_PCH_SLP_S3_L := True),
              in_signals := IN_PGOOD_S5 example_signal_bit OR
                            IN_ALL_PM_SLP_DEASSERTED example_signal_bit,
              signal_feed := [IN_ALL_S0 example_signal_bit],
              pltrst_asserted := always_asserted\<rparr>"

text \<open>What the signal source shows once a forced shutdown has taken the rails down.\<close>

definition world_rails_lost :: world where
  "world_rails_lost = world_S0\<lparr>in_signals := 0\<rparr>"

text \<open>A firmware image entered by a jump while the machine is running, and while it is off.\<close>

definition world_jumped_S0 :: world where
  "world_jumped_S0 = world_S0\<lparr>jumped_to_this_image := True\<rparr>"

definition world_jumped_off :: world where
  "world_jumped_off = world_G3\<lparr>jumped_to_this_image := True\<rparr>"

text \<open>A parser that knows the two words of the command's help string, \<^verbatim>\<open>[on|off]\<close>.\<close>

definition example_parse_bool :: bool_parser where
  "example_parse_bool s =
     (if s = ''on'' then Some 1 else if s = ''off'' then Some 0 else None)"

section \<open>Effects of the collaborators\<close>

lemmas collab_defs = emit_def gpio_set_level_def gpio_get_level_def cprints_def ccprintf_def
  msleep_def usleep_def udelay_def hook_notify_def wireless_set_state_def disable_sleep_def
  enable_sleep_def power_button_pch_release_def power_button_pch_pulse_def lid_is_open_def
  system_jumped_to_this_image_def usb_charge_ports_enabled_def lpc_get_pltrst_asserted_def
  power_get_signals_def power_has_signals_def

lemma new_events_append [simp]: "trace w' = trace w @ es \<Longrightarrow> new_events w w' = es"
  by (simp add: new_events_def)

lemma new_events_same [simp]: "new_events w w = []"
  by (simp add: new_events_def)

lemma chipset_force_shutdown_eq:
  "chipset_force_shutdown w =
     w\<lparr>gpio := (gpio w)(GPIO_PCH_SYS_PWROK := False, GPIO_PCH_RSMRST_L := False),
       trace := trace w @ force_shutdown_events\<rparr>"
  by (simp add: chipset_force_shutdown_def collab_defs force_shutdown_events_def)

lemma wait_fields [simp]:
  "trace (snd (power_wait_signals m w)) = trace w"
  "gpio (snd (power_wait_signals m w)) = gpio w"
  "throttle_cpu (snd (power_wait_signals m w)) = throttle_cpu w"
  "pause_in_s5 (snd (power_wait_signals m w)) = pause_in_s5 w"
  "restart_from_s5 (snd (power_wait_signals m w)) = restart_from_s5 w"
  "fake_pltrst_timeout (snd (power_wait_signals m w)) = fake_pltrst_timeout w"
  "pltrst_asserted (snd (power_wait_signals m w)) = pltrst_asserted w"
  by (simp_all add: power_wait_signals_def Let_def split: list.splits)

lemma wait_result_cong:
  "in_signals w' = in_signals w \<Longrightarrow> signal_feed w' = signal_feed w \<Longrightarrow>
   fst (power_wait_signals m w') = fst (power_wait_signals m w)"
  by (simp add: power_wait_signals_def Let_def split: list.splits)

lemma sublist_force_shutdown:
  "trace w' = trace w @ pre @ force_shutdown_events @ post \<Longrightarrow>
   sublist force_shutdown_events (new_events w w')"
  by (simp add: new_events_def sublist_def) blast

section \<open>The platform-reset poll\<close>

lemma pltrst_poll_shape:
  "\<exists>n. n \<le> nat (50 - i) \<and>
       snd (pltrst_poll i w) = w\<lparr>trace := trace w @ replicate n (Usleep MSEC)\<rparr>"
proof (induction i w rule: pltrst_poll.induct)
  case (1 i w)
  show ?case
  proof (cases "i < 50 \<and> pltrst_asserted w (nat i)")
    case True
    from True obtain n where n: "n \<le> nat (50 - (i + 1))"
      and eq: "snd (pltrst_poll (i + 1) (usleep MSEC w)) =
                 (usleep MSEC w)\<lparr>trace := trace (usleep MSEC w) @ replicate n (Usleep MSEC)\<rparr>"
      using 1 [of "usleep MSEC w"] by (auto simp: collab_defs)
    have "pltrst_poll i w = pltrst_poll (i + 1) (usleep MSEC w)"
      using True by (subst pltrst_poll.simps) (simp add: collab_defs)
    then have "snd (pltrst_poll i w) =
                 w\<lparr>trace := trace w @ replicate (Suc n) (Usleep MSEC)\<rparr>"
      using eq by (simp add: collab_defs)
    moreover have "Suc n \<le> nat (50 - i)" using n True by linarith
    ultimately show ?thesis by blast
  next
    case False
    show ?thesis
    proof (cases "i < 50")
      case True
      then have "snd (pltrst_poll i w) = w\<lparr>trace := trace w @ replicate 1 (Usleep MSEC)\<rparr>"
        using False by (subst pltrst_poll.simps) (simp add: collab_defs)
      moreover have "1 \<le> nat (50 - i)" using True by simp
      ultimately show ?thesis by blast
    next
      case False
      then have "snd (pltrst_poll i w) = w\<lparr>trace := trace w @ replicate 0 (Usleep MSEC)\<rparr>"
        by (subst pltrst_poll.simps) simp
      then show ?thesis by blast
    qed
  qed
qed

lemma pltrst_poll_fields [simp]:
  "gpio (snd (pltrst_poll i w)) = gpio w"
  "throttle_cpu (snd (pltrst_poll i w)) = throttle_cpu w"
  "pause_in_s5 (snd (pltrst_poll i w)) = pause_in_s5 w"
  "restart_from_s5 (snd (pltrst_poll i w)) = restart_from_s5 w"
  "fake_pltrst_timeout (snd (pltrst_poll i w)) = fake_pltrst_timeout w"
  using pltrst_poll_shape [of i w] by auto

lemma pltrst_poll_length:
  "length (trace (snd (pltrst_poll i w))) \<le> length (trace w) + nat (50 - i)"
  using pltrst_poll_shape [of i w] by auto

lemma pltrst_poll_exhausted:
  "0 \<le> i \<Longrightarrow> i \<le> 50 \<Longrightarrow> (\<And>k. nat i \<le> k \<Longrightarrow> k < 50 \<Longrightarrow> pltrst_asserted w k) \<Longrightarrow>
   pltrst_poll i w = (50, w\<lparr>trace := trace w @ replicate (nat (50 - i)) (Usleep MSEC)\<rparr>)"
proof (induction i w rule: pltrst_poll.induct)
  case (1 i w)
  show ?case
  proof (cases "i < 50")
    case True
    have a: "pltrst_asserted w (nat i)"
      using 1(2) True by (intro 1(4)) auto
    have "pltrst_poll i w = pltrst_poll (i + 1) (usleep MSEC w)"
      using True a by (subst pltrst_poll.simps) (simp add: collab_defs)
    also have "\<dots> = (50, (usleep MSEC w)\<lparr>trace := trace (usleep MSEC w) @
                          replicate (nat (50 - (i + 1))) (Usleep MSEC)\<rparr>)"
      using True 1(2) a
      by (intro 1(1) [OF True refl]) (auto simp: collab_defs intro!: 1(4))
    also have "\<dots> = (50, w\<lparr>trace := trace w @ replicate (nat (50 - i)) (Usleep MSEC)\<rparr>)"
    proof -
      have "nat (50 - i) = Suc (nat (50 - (i + 1)))" using True by simp
      then show ?thesis by (simp add: collab_defs replicate_app_Cons_same)
    qed
    finally show ?thesis .
  next
    case False
    with 1(3) have "i = 50" by simp
    then show ?thesis by (subst pltrst_poll.simps) simp
  qed
qed

section \<open>chipset_force_shutdown\<close>

text \<open>
  C7, as the code has it: \<^verbatim>\<open>chipset_force_shutdown\<close> performs exactly two GPIO writes,
  \<^verbatim>\<open>GPIO_PCH_SYS_PWROK\<close> to 0 and then \<^verbatim>\<open>GPIO_PCH_RSMRST_L\<close> to 0 (not
  \<^verbatim>\<open>GPIO_PCH_CORE_PWROK\<close>), after one console line; it changes no other line and none
  of the module's flags.
\<close>

theorem chipset_force_shutdown_writes:
  "gpio_writes (new_events w (chipset_force_shutdown w)) =
     [(GPIO_PCH_SYS_PWROK, 0), (GPIO_PCH_RSMRST_L, 0)] \<and>
   chipset_force_shutdown w =
     w\<lparr>gpio := (gpio w)(GPIO_PCH_SYS_PWROK := False, GPIO_PCH_RSMRST_L := False),
       trace := trace w @ force_shutdown_events\<rparr> \<and>
   throttle_cpu (chipset_force_shutdown w) = throttle_cpu w \<and>
   pause_in_s5 (chipset_force_shutdown w) = pause_in_s5 w \<and>
   restart_from_s5 (chipset_force_shutdown w) = restart_from_s5 w \<and>
   fake_pltrst_timeout (chipset_force_shutdown w) = fake_pltrst_timeout w"
  by (simp add: chipset_force_shutdown_eq force_shutdown_events_def)

text \<open>
  C7 as stated fails on a machine running in S0: after \<^verbatim>\<open>chipset_force_shutdown\<close> the
  writes are not the pair (SYS PWROK, CORE PWROK), the CORE PWROK line is still high,
  and the RSMRST# line, which was high, has been driven low.
\<close>

theorem chipset_force_shutdown_core_pwrok_counterexample:
  "gpio_writes (new_events world_S0 (chipset_force_shutdown world_S0)) \<noteq>
     [(GPIO_PCH_SYS_PWROK, 0), (GPIO_PCH_CORE_PWROK, 0)] \<and>
   gpio (chipset_force_shutdown world_S0) GPIO_PCH_CORE_PWROK \<and>
   gpio world_S0 GPIO_PCH_RSMRST_L \<and>
   \<not> gpio (chipset_force_shutdown world_S0) GPIO_PCH_RSMRST_L"
  by (simp add: chipset_force_shutdown_eq force_shutdown_events_def world_S0_def
      world_G3_def lines_S0_def)

section \<open>chipset_reset\<close>

text \<open>
  C10: a cold reset requested while \<^verbatim>\<open>GPIO_PCH_SYS_PWROK\<close> reads low returns after its
  console line without any GPIO write; while it reads high the line is driven low, held
  for 100 us and driven high again; a warm reset always drives \<^verbatim>\<open>GPIO_PCH_RCIN_L\<close> low
  for 32 ms and high again.
\<close>

theorem chipset_reset_paths:
  "(cold_reset \<noteq> 0 \<and> gpio_get_level GPIO_PCH_SYS_PWROK w = 0 \<longrightarrow>
      chipset_reset cold_reset w =
        w\<lparr>trace := trace w @
             [Cprints ''%s(%d)'' [ArgStr ''chipset_reset'', ArgInt cold_reset]]\<rparr> \<and>
      gpio_writes (new_events w (chipset_reset cold_reset w)) = []) \<and>
   (cold_reset \<noteq> 0 \<and> gpio_get_level GPIO_PCH_SYS_PWROK w \<noteq> 0 \<longrightarrow>
      chipset_reset cold_reset w =
        w\<lparr>gpio := (gpio w)(GPIO_PCH_SYS_PWROK := True),
          trace := trace w @
             [Cprints ''%s(%d)'' [ArgStr ''chipset_reset'', ArgInt cold_reset],
              Gpio_set GPIO_PCH_SYS_PWROK 0, Udelay 100, Gpio_set GPIO_PCH_SYS_PWROK 1]\<rparr>) \<and>
   (cold_reset = 0 \<longrightarrow>
      chipset_reset cold_reset w =
        w\<lparr>gpio := (gpio w)(GPIO_PCH_RCIN_L := True),
          trace := trace w @
             [Cprints ''%s(%d)'' [ArgStr ''chipset_reset'', ArgInt cold_reset],
              Gpio_set GPIO_PCH_RCIN_L 0, Usleep 32000, Gpio_set GPIO_PCH_RCIN_L 1]\<rparr>)"
  by (simp add: chipset_reset_def collab_defs MSEC_def)

theorem chipset_reset_paths_witness:
  "((1::int) \<noteq> 0 \<and> gpio_get_level GPIO_PCH_SYS_PWROK world_G3 = 0) \<and>
   gpio_writes (new_events world_G3 (chipset_reset 1 world_G3)) = [] \<and>
   gpio (chipset_reset 1 world_G3) = gpio world_G3 \<and>
   ((1::int) \<noteq> 0 \<and> gpio_get_level GPIO_PCH_SYS_PWROK world_S0 \<noteq> 0) \<and>
   gpio_writes (new_events world_S0 (chipset_reset 1 world_S0)) =
     [(GPIO_PCH_SYS_PWROK, 0), (GPIO_PCH_SYS_PWROK, 1)] \<and>
   gpio_writes (new_events world_S0 (chipset_reset 0 world_S0)) =
     [(GPIO_PCH_RCIN_L, 0), (GPIO_PCH_RCIN_L, 1)]"
proof -
  have h1: "(1::int) \<noteq> 0 \<and> gpio_get_level GPIO_PCH_SYS_PWROK world_G3 = 0"
    by (simp add: gpio_get_level_def world_G3_def lines_G3_def)
  have h2: "(1::int) \<noteq> 0 \<and> gpio_get_level GPIO_PCH_SYS_PWROK world_S0 \<noteq> 0"
    by (simp add: gpio_get_level_def world_S0_def world_G3_def lines_S0_def)
  from h1 chipset_reset_paths [of 1 world_G3]
  have e1: "chipset_reset 1 world_G3 =
      world_G3\<lparr>trace := trace world_G3 @
        [Cprints ''%s(%d)'' [ArgStr ''chipset_reset'', ArgInt 1]]\<rparr>"
    by blast
  from h2 chipset_reset_paths [of 1 world_S0]
  have e2: "chipset_reset 1 world_S0 =
      world_S0\<lparr>gpio := (gpio world_S0)(GPIO_PCH_SYS_PWROK := True),
        trace := trace world_S0 @
          [Cprints ''%s(%d)'' [ArgStr ''chipset_reset'', ArgInt 1],
           Gpio_set GPIO_PCH_SYS_PWROK 0, Udelay 100, Gpio_set GPIO_PCH_SYS_PWROK 1]\<rparr>"
    by blast
  from chipset_reset_paths [of 0 world_S0]
  have e3: "chipset_reset 0 world_S0 =
      world_S0\<lparr>gpio := (gpio world_S0)(GPIO_PCH_RCIN_L := True),
        trace := trace world_S0 @
          [Cprints ''%s(%d)'' [ArgStr ''chipset_reset'', ArgInt 0],
           Gpio_set GPIO_PCH_RCIN_L 0, Usleep 32000, Gpio_set GPIO_PCH_RCIN_L 1]\<rparr>"
    by blast
  show ?thesis
    using h1 h2 by (simp add: e1 e2 e3)
qed

section \<open>power_chipset_init\<close>

text \<open>
  C5: \<^verbatim>\<open>power_chipset_init\<close> returns \<^verbatim>\<open>POWER_S0\<close> exactly when the image was entered
  by a jump and the live mask contains every bit of \<^verbatim>\<open>IN_ALL_S0\<close>; it then only
  disables deep sleep and prints, with no GPIO write, no wireless change and no hook.
  After a jump with any other mask it writes the eight G3 defaults, turns wireless off
  and returns \<^verbatim>\<open>POWER_G3\<close>.
\<close>

theorem power_chipset_init_shortcut:
  "(fst (power_chipset_init b w) = POWER_S0) =
     (system_jumped_to_this_image w \<and>
      (power_get_signals w AND IN_ALL_S0 b) = IN_ALL_S0 b) \<and>
   (system_jumped_to_this_image w \<and>
    (power_get_signals w AND IN_ALL_S0 b) = IN_ALL_S0 b \<longrightarrow>
      power_chipset_init b w =
        (POWER_S0,
         w\<lparr>trace := trace w @
              [Disable_sleep SLEEP_MASK_AP_RUN, Cprints ''already in S0'' []]\<rparr>)) \<and>
   (system_jumped_to_this_image w \<and>
    (power_get_signals w AND IN_ALL_S0 b) \<noteq> IN_ALL_S0 b \<longrightarrow>
      power_chipset_init b w =
        (POWER_G3,
         w\<lparr>gpio := (gpio w)
              (GPIO_PCH_CORE_PWROK := False, GPIO_VCORE_EN := False,
               GPIO_SUSP_VR_EN := False, GPIO_PP1350_EN := False,
               GPIO_PP3300_DX_EN := False, GPIO_PP5000_EN := False,
               GPIO_PCH_RSMRST_L := False, GPIO_PCH_SYS_PWROK := False),
           trace := trace w @
              [Cprints ''forcing G3'' [],
               Gpio_set GPIO_PCH_CORE_PWROK 0, Gpio_set GPIO_VCORE_EN 0,
               Gpio_set GPIO_SUSP_VR_EN 0, Gpio_set GPIO_PP1350_EN 0,
               Gpio_set GPIO_PP3300_DX_EN 0, Gpio_set GPIO_PP5000_EN 0,
               Gpio_set GPIO_PCH_RSMRST_L 0, Gpio_set GPIO_PCH_SYS_PWROK 0,
               Wireless_set WIRELESS_OFF]\<rparr>))"
  by (simp add: power_chipset_init_def collab_defs)

lemmas mask_defs = POWER_SIGNAL_MASK_def IN_PGOOD_PP5000_def IN_PGOOD_PP1050_def
  IN_PGOOD_S5_def IN_PGOOD_VCORE_def IN_SLP_S3_DEASSERTED_def IN_SLP_S4_DEASSERTED_def
  IN_PGOOD_ALWAYS_ON_def IN_PGOOD_ALL_NONCORE_def IN_PGOOD_ALL_CORE_def IN_PGOOD_S3_def
  IN_PGOOD_S0_def IN_ALL_PM_SLP_DEASSERTED_def IN_ALL_S0_def

lemma example_masks:
  "IN_PGOOD_S5 example_signal_bit = 4"
  "IN_PGOOD_S3 example_signal_bit = 4"
  "IN_PGOOD_ALWAYS_ON example_signal_bit = 4"
  "IN_PGOOD_PP5000 example_signal_bit = 1"
  "IN_PGOOD_VCORE example_signal_bit = 8"
  "IN_PGOOD_S0 example_signal_bit = 5"
  "IN_ALL_PM_SLP_DEASSERTED example_signal_bit = 48"
  "IN_ALL_S0 example_signal_bit = 61"
  by (simp_all add: mask_defs)

theorem power_chipset_init_shortcut_witness:
  "(system_jumped_to_this_image world_jumped_S0 \<and>
    (power_get_signals world_jumped_S0 AND IN_ALL_S0 example_signal_bit) =
      IN_ALL_S0 example_signal_bit) \<and>
   fst (power_chipset_init example_signal_bit world_jumped_S0) = POWER_S0 \<and>
   gpio_writes (new_events world_jumped_S0
      (snd (power_chipset_init example_signal_bit world_jumped_S0))) = [] \<and>
   (system_jumped_to_this_image world_jumped_off \<and>
    (power_get_signals world_jumped_off AND IN_ALL_S0 example_signal_bit) \<noteq>
      IN_ALL_S0 example_signal_bit) \<and>
   fst (power_chipset_init example_signal_bit world_jumped_off) = POWER_G3 \<and>
   length (gpio_writes (new_events world_jumped_off
      (snd (power_chipset_init example_signal_bit world_jumped_off)))) = 8"
proof -
  have h1: "system_jumped_to_this_image world_jumped_S0 \<and>
      (power_get_signals world_jumped_S0 AND IN_ALL_S0 example_signal_bit) =
        IN_ALL_S0 example_signal_bit"
    by (simp add: collab_defs world_jumped_S0_def world_S0_def world_G3_def)
  have h2: "system_jumped_to_this_image world_jumped_off \<and>
      (power_get_signals world_jumped_off AND IN_ALL_S0 example_signal_bit) \<noteq>
        IN_ALL_S0 example_signal_bit"
    by (simp add: collab_defs world_jumped_off_def world_G3_def example_masks)
  note t1 = power_chipset_init_shortcut [of example_signal_bit world_jumped_S0]
  note t2 = power_chipset_init_shortcut [of example_signal_bit world_jumped_off]
  from h1 t1 have e1: "power_chipset_init example_signal_bit world_jumped_S0 =
      (POWER_S0, world_jumped_S0\<lparr>trace := trace world_jumped_S0 @
         [Disable_sleep SLEEP_MASK_AP_RUN, Cprints ''already in S0'' []]\<rparr>)"
    by blast
  from h2 t2 have e2: "power_chipset_init example_signal_bit world_jumped_off =
        (POWER_G3,
         world_jumped_off\<lparr>gpio := (gpio world_jumped_off)
              (GPIO_PCH_CORE_PWROK := False, GPIO_VCORE_EN := False,
               GPIO_SUSP_VR_EN := False, GPIO_PP1350_EN := False,
               GPIO_PP3300_DX_EN := False, GPIO_PP5000_EN := False,
               GPIO_PCH_RSMRST_L := False, GPIO_PCH_SYS_PWROK := False),
           trace := trace world_jumped_off @
              [Cprints ''forcing G3'' [],
               Gpio_set GPIO_PCH_CORE_PWROK 0, Gpio_set GPIO_VCORE_EN 0,
               Gpio_set GPIO_SUSP_VR_EN 0, Gpio_set GPIO_PP1350_EN 0,
               Gpio_set GPIO_PP3300_DX_EN 0, Gpio_set GPIO_PP5000_EN 0,
               Gpio_set GPIO_PCH_RSMRST_L 0, Gpio_set GPIO_PCH_SYS_PWROK 0,
               Wireless_set WIRELESS_OFF]\<rparr>)"
    by blast
  show ?thesis
    using h1 h2 by (simp add: e1 e2)
qed

section \<open>Steady state G3\<close>

text \<open>
  C8: \<^verbatim>\<open>power_handle_state(POWER_G3)\<close> returns \<^verbatim>\<open>POWER_G3\<close> and leaves the world as
  it was, whatever the signal mask, and so does any number of repeated calls: no event
  is appended, no line changes and none of the four flags is written.
\<close>

theorem power_handle_state_G3_idempotent:
  "power_handle_state b POWER_G3 w = (POWER_G3, w) \<and>
   repeat_handle_state b n POWER_G3 w = (POWER_G3, w) \<and>
   new_events w (snd (repeat_handle_state b n POWER_G3 w)) = [] \<and>
   gpio (snd (repeat_handle_state b n POWER_G3 w)) = gpio w \<and>
   throttle_cpu (snd (repeat_handle_state b n POWER_G3 w)) = throttle_cpu w \<and>
   pause_in_s5 (snd (repeat_handle_state b n POWER_G3 w)) = pause_in_s5 w \<and>
   restart_from_s5 (snd (repeat_handle_state b n POWER_G3 w)) = restart_from_s5 w \<and>
   fake_pltrst_timeout (snd (repeat_handle_state b n POWER_G3 w)) = fake_pltrst_timeout w"
proof -
  have "repeat_handle_state b n POWER_G3 w = (POWER_G3, w)"
    by (induction n) simp_all
  then show ?thesis by simp
qed

section \<open>The S3->S5 edge\<close>

text \<open>
  C6: after its rail writes the \<^verbatim>\<open>POWER_S3S5\<close> edge looks at \<^verbatim>\<open>restart_from_s5\<close>
  first.  When the flag is set, whatever \<^verbatim>\<open>pause_in_s5\<close> is, it clears the flag, sleeps
  100 ms, pulses the power button and returns \<^verbatim>\<open>POWER_G3S5\<close>.  Otherwise it returns
  \<^verbatim>\<open>POWER_S5\<close> when \<^verbatim>\<open>pause_in_s5\<close> is true and \<^verbatim>\<open>POWER_S5G3\<close> when it is false.
\<close>

theorem power_handle_state_S3S5_exit:
  "(restart_from_s5 w \<noteq> 0 \<longrightarrow>
      fst (power_handle_state b POWER_S3S5 w) = POWER_G3S5 \<and>
      restart_from_s5 (snd (power_handle_state b POWER_S3S5 w)) = 0 \<and>
      new_events w (snd (power_handle_state b POWER_S3S5 w)) =
        s3s5_shutdown_events @
        [Cprints ''power restart from S5'' [], Msleep 100, Power_button_pch_pulse]) \<and>
   (restart_from_s5 w = 0 \<and> pause_in_s5 w \<noteq> 0 \<longrightarrow>
      fst (power_handle_state b POWER_S3S5 w) = POWER_S5 \<and>
      new_events w (snd (power_handle_state b POWER_S3S5 w)) = s3s5_shutdown_events) \<and>
   (restart_from_s5 w = 0 \<and> pause_in_s5 w = 0 \<longrightarrow>
      fst (power_handle_state b POWER_S3S5 w) = POWER_S5G3 \<and>
      new_events w (snd (power_handle_state b POWER_S3S5 w)) = s3s5_shutdown_events)"
  by (simp add: Let_def collab_defs s3s5_shutdown_events_def)

theorem power_handle_state_S3S5_exit_witness:
  "restart_from_s5 (world_S3\<lparr>restart_from_s5 := 1\<rparr>) \<noteq> 0 \<and>
   pause_in_s5 (world_S3\<lparr>restart_from_s5 := 1\<rparr>) \<noteq> 0 \<and>
   fst (power_handle_state example_signal_bit POWER_S3S5 (world_S3\<lparr>restart_from_s5 := 1\<rparr>)) =
     POWER_G3S5 \<and>
   (restart_from_s5 world_S3 = 0 \<and> pause_in_s5 world_S3 \<noteq> 0) \<and>
   fst (power_handle_state example_signal_bit POWER_S3S5 world_S3) = POWER_S5 \<and>
   (restart_from_s5 (world_S3\<lparr>pause_in_s5 := 0\<rparr>) = 0 \<and>
    pause_in_s5 (world_S3\<lparr>pause_in_s5 := 0\<rparr>) = 0) \<and>
   fst (power_handle_state example_signal_bit POWER_S3S5 (world_S3\<lparr>pause_in_s5 := 0\<rparr>)) =
     POWER_S5G3"
proof -
  have h1: "restart_from_s5 (world_S3\<lparr>restart_from_s5 := 1\<rparr>) \<noteq> 0"
    by simp
  have p1: "pause_in_s5 (world_S3\<lparr>restart_from_s5 := 1\<rparr>) \<noteq> 0"
    by (simp add: world_S3_def world_G3_def)
  have h2: "restart_from_s5 world_S3 = 0 \<and> pause_in_s5 world_S3 \<noteq> 0"
    by (simp add: world_S3_def world_G3_def)
  have h3: "restart_from_s5 (world_S3\<lparr>pause_in_s5 := 0\<rparr>) = 0 \<and>
      pause_in_s5 (world_S3\<lparr>pause_in_s5 := 0\<rparr>) = 0"
    by (simp add: world_S3_def world_G3_def)
  from h1 power_handle_state_S3S5_exit
         [of "world_S3\<lparr>restart_from_s5 := 1\<rparr>" example_signal_bit]
  have c1: "fst (power_handle_state example_signal_bit POWER_S3S5
              (world_S3\<lparr>restart_from_s5 := 1\<rparr>)) = POWER_G3S5"
    by blast
  from h2 power_handle_state_S3S5_exit [of world_S3 example_signal_bit]
  have c2: "fst (power_handle_state example_signal_bit POWER_S3S5 world_S3) = POWER_S5"
    by blast
  from h3 power_handle_state_S3S5_exit [of "world_S3\<lparr>pause_in_s5 := 0\<rparr>" example_signal_bit]
  have c3: "fst (power_handle_state example_signal_bit POWER_S3S5
              (world_S3\<lparr>pause_in_s5 := 0\<rparr>)) = POWER_S5G3"
    by blast
  from h1 p1 h2 h3 c1 c2 c3 show ?thesis by blast
qed

section \<open>The pause_in_s5 console command\<close>

text \<open>
  C9: when the argument does not parse as a boolean, \<^verbatim>\<open>console_command_gsv\<close> returns
  \<^verbatim>\<open>EC_ERROR_INVAL\<close> and the world, \<^verbatim>\<open>pause_in_s5\<close> included, is as before; when it
  parses to \<open>v\<close>, the command stores \<open>v\<close> in \<^verbatim>\<open>pause_in_s5\<close>, prints the setting and returns
  \<^verbatim>\<open>EC_SUCCESS\<close>.
\<close>

theorem console_command_gsv_boundary:
  "(pb arg = None \<longrightarrow>
      console_command_gsv pb (cmd # arg # rest) w = (EC_ERROR_INVAL, w)) \<and>
   (pb arg = Some v \<longrightarrow>
      fst (console_command_gsv pb (cmd # arg # rest) w) = EC_SUCCESS \<and>
      pause_in_s5 (snd (console_command_gsv pb (cmd # arg # rest) w)) = v \<and>
      new_events w (snd (console_command_gsv pb (cmd # arg # rest) w)) =
        [Ccprintf ''pause_in_s5 = %s\<newline>'' [ArgStr (if v \<noteq> 0 then ''on'' else ''off'')]])"
  by (simp add: console_command_gsv_def collab_defs)

theorem console_command_gsv_boundary_witness:
  "example_parse_bool ''maybe'' = None \<and>
   console_command_gsv example_parse_bool [''pause_in_s5'', ''maybe''] world_G3 =
     (EC_ERROR_INVAL, world_G3) \<and>
   example_parse_bool ''off'' = Some 0 \<and>
   fst (console_command_gsv example_parse_bool [''pause_in_s5'', ''off''] world_G3) =
     EC_SUCCESS \<and>
   pause_in_s5 (snd (console_command_gsv example_parse_bool [''pause_in_s5'', ''off''] world_G3)) = 0"
proof -
  have h1: "example_parse_bool ''maybe'' = None"
    by (simp add: example_parse_bool_def)
  have h2: "example_parse_bool ''off'' = Some 0"
    by (simp add: example_parse_bool_def)
  from h1 console_command_gsv_boundary
         [where pb = example_parse_bool and arg = "''maybe''" and cmd = "''pause_in_s5''"
            and rest = "[]" and w = world_G3]
  have c1: "console_command_gsv example_parse_bool [''pause_in_s5'', ''maybe''] world_G3 =
      (EC_ERROR_INVAL, world_G3)"
    by blast
  from h2 console_command_gsv_boundary
         [where pb = example_parse_bool and arg = "''off''" and v = 0
            and cmd = "''pause_in_s5''" and rest = "[]" and w = world_G3]
  have c2: "fst (console_command_gsv example_parse_bool [''pause_in_s5'', ''off''] world_G3) =
      EC_SUCCESS \<and>
      pause_in_s5 (snd (console_command_gsv example_parse_bool
        [''pause_in_s5'', ''off''] world_G3)) = 0"
    by blast
  from h1 h2 c1 c2 show ?thesis by blast
qed

section \<open>Faults move the machine toward off\<close>

lemma fault_S3:
  assumes "\<not> power_has_signals (IN_PGOOD_S3 b) w"
  shows "fst (power_handle_state b POWER_S3 w) = POWER_S3S5"
    and "sublist force_shutdown_events (new_events w (snd (power_handle_state b POWER_S3 w)))"
proof -
  let ?w1 = "gpio_set_level GPIO_TOUCHSCREEN_RESET_L (lid_is_open w) w"
  have r: "power_handle_state b POWER_S3 w = (POWER_S3S5, chipset_force_shutdown ?w1)"
    using assms by (simp add: Let_def collab_defs)
  show "fst (power_handle_state b POWER_S3 w) = POWER_S3S5"
    unfolding r by simp
  have "trace (chipset_force_shutdown ?w1) =
          trace w @ [Gpio_set GPIO_TOUCHSCREEN_RESET_L (lid_is_open w)] @
          force_shutdown_events @ []"
    by (simp add: chipset_force_shutdown_eq gpio_set_level_def emit_def)
  then show "sublist force_shutdown_events
               (new_events w (snd (power_handle_state b POWER_S3 w)))"
    unfolding r snd_conv by (rule sublist_force_shutdown)
qed

lemma fault_S0:
  assumes "\<not> power_has_signals (IN_PGOOD_S0 b) w"
  shows "power_handle_state b POWER_S0 w = (POWER_S0S3, chipset_force_shutdown w)"
    and "sublist force_shutdown_events (new_events w (snd (power_handle_state b POWER_S0 w)))"
proof -
  show r: "power_handle_state b POWER_S0 w = (POWER_S0S3, chipset_force_shutdown w)"
    using assms by (simp add: Let_def)
  have "trace (chipset_force_shutdown w) = trace w @ [] @ force_shutdown_events @ []"
    by (simp add: chipset_force_shutdown_eq)
  then show "sublist force_shutdown_events
               (new_events w (snd (power_handle_state b POWER_S0 w)))"
    unfolding r snd_conv by (rule sublist_force_shutdown)
qed

lemma fault_G3S5:
  assumes "fst (power_wait_signals (IN_PGOOD_S5 b) w) \<noteq> EC_SUCCESS"
  shows "fst (power_handle_state b POWER_G3S5 w) = POWER_G3"
    and "sublist force_shutdown_events (new_events w (snd (power_handle_state b POWER_G3S5 w)))"
proof -
  let ?w1 = "gpio_set_level GPIO_SUSP_VR_EN 1 (msleep 10 w)"
  let ?w2 = "snd (power_wait_signals (IN_PGOOD_S5 b) ?w1)"
  have "fst (power_wait_signals (IN_PGOOD_S5 b) ?w1) =
          fst (power_wait_signals (IN_PGOOD_S5 b) w)"
    by (rule wait_result_cong) (simp_all add: collab_defs)
  with assms have t: "fst (power_wait_signals (IN_PGOOD_S5 b) ?w1) \<noteq> EC_SUCCESS"
    by simp
  have r: "power_handle_state b POWER_G3S5 w =
             (POWER_G3, chipset_force_shutdown (gpio_set_level GPIO_SUSP_VR_EN 0 ?w2))"
    using t by (simp add: Let_def split_beta)
  show "fst (power_handle_state b POWER_G3S5 w) = POWER_G3"
    unfolding r by simp
  have "trace (chipset_force_shutdown (gpio_set_level GPIO_SUSP_VR_EN 0 ?w2)) =
          trace w @ [Msleep 10, Gpio_set GPIO_SUSP_VR_EN 1, Gpio_set GPIO_SUSP_VR_EN 0] @
          force_shutdown_events @ []"
    by (simp add: chipset_force_shutdown_eq gpio_set_level_def msleep_def emit_def)
  then show "sublist force_shutdown_events
               (new_events w (snd (power_handle_state b POWER_G3S5 w)))"
    unfolding r snd_conv by (rule sublist_force_shutdown)
qed

lemma fault_S5S3_first:
  assumes "fst (power_wait_signals (IN_PGOOD_ALWAYS_ON b) w) \<noteq> EC_SUCCESS"
  shows "fst (power_handle_state b POWER_S5S3 w) = POWER_S5G3"
    and "sublist force_shutdown_events (new_events w (snd (power_handle_state b POWER_S5S3 w)))"
proof -
  let ?w1 = "snd (power_wait_signals (IN_PGOOD_ALWAYS_ON b) w)"
  have r: "power_handle_state b POWER_S5S3 w = (POWER_S5G3, chipset_force_shutdown ?w1)"
    using assms by (simp add: Let_def split_beta)
  show "fst (power_handle_state b POWER_S5S3 w) = POWER_S5G3"
    unfolding r by simp
  have "trace (chipset_force_shutdown ?w1) = trace w @ [] @ force_shutdown_events @ []"
    by (simp add: chipset_force_shutdown_eq)
  then show "sublist force_shutdown_events
               (new_events w (snd (power_handle_state b POWER_S5S3 w)))"
    unfolding r snd_conv by (rule sublist_force_shutdown)
qed

lemma fault_S5S3_second:
  assumes "fst (power_wait_signals (IN_PGOOD_ALWAYS_ON b) w) = EC_SUCCESS"
    and "fst (power_wait_signals (IN_PGOOD_S3 b)
               (snd (power_wait_signals (IN_PGOOD_ALWAYS_ON b) w))) \<noteq> EC_SUCCESS"
  shows "fst (power_handle_state b POWER_S5S3 w) = POWER_S5G3"
    and "sublist force_shutdown_events (new_events w (snd (power_handle_state b POWER_S5S3 w)))"
proof -
  let ?w1 = "snd (power_wait_signals (IN_PGOOD_ALWAYS_ON b) w)"
  let ?w2 = "gpio_set_level GPIO_PP1350_EN 1 ?w1"
  let ?w3 = "snd (power_wait_signals (IN_PGOOD_S3 b) ?w2)"
  have "fst (power_wait_signals (IN_PGOOD_S3 b) ?w2) =
          fst (power_wait_signals (IN_PGOOD_S3 b) ?w1)"
    by (rule wait_result_cong) (simp_all add: collab_defs)
  with assms(2) have t: "fst (power_wait_signals (IN_PGOOD_S3 b) ?w2) \<noteq> EC_SUCCESS"
    by simp
  have r: "power_handle_state b POWER_S5S3 w = (POWER_S5G3, chipset_force_shutdown ?w3)"
    using assms(1) t by (simp add: Let_def split_beta)
  show "fst (power_handle_state b POWER_S5S3 w) = POWER_S5G3"
    unfolding r by simp
  have "trace (chipset_force_shutdown ?w3) =
          trace w @ [Gpio_set GPIO_PP1350_EN 1] @ force_shutdown_events @ []"
    by (simp add: chipset_force_shutdown_eq gpio_set_level_def emit_def)
  then show "sublist force_shutdown_events
               (new_events w (snd (power_handle_state b POWER_S5S3 w)))"
    unfolding r snd_conv by (rule sublist_force_shutdown)
qed

lemma fault_S3S0:
  assumes "fst (power_wait_signals (IN_PGOOD_S0 b) w) \<noteq> EC_SUCCESS"
  shows "fst (power_handle_state b POWER_S3S0 w) = POWER_S3"
    and "sublist force_shutdown_events (new_events w (snd (power_handle_state b POWER_S3S0 w)))"
proof -
  let ?w1 = "gpio_set_level GPIO_TOUCHSCREEN_RESET_L 1
               (wireless_set_state WIRELESS_ON
                 (gpio_set_level GPIO_PP3300_DX_EN 1
                   (usleep (3 * MSEC) (gpio_set_level GPIO_PP5000_EN 1 w))))"
  let ?w2 = "snd (power_wait_signals (IN_PGOOD_S0 b) ?w1)"
  let ?w3 = "gpio_set_level GPIO_TOUCHSCREEN_RESET_L 0
               (gpio_set_level GPIO_PP5000_EN 0
                 (gpio_set_level GPIO_PP3300_DX_EN 0
                   (wireless_set_state WIRELESS_OFF (chipset_force_shutdown ?w2))))"
  have "fst (power_wait_signals (IN_PGOOD_S0 b) ?w1) =
          fst (power_wait_signals (IN_PGOOD_S0 b) w)"
    by (rule wait_result_cong) (simp_all add: collab_defs)
  with assms have t: "fst (power_wait_signals (IN_PGOOD_S0 b) ?w1) \<noteq> EC_SUCCESS"
    by simp
  have r: "power_handle_state b POWER_S3S0 w = (POWER_S3, ?w3)"
    using t by (simp add: Let_def split_beta)
  show "fst (power_handle_state b POWER_S3S0 w) = POWER_S3"
    unfolding r by simp
  have "trace ?w3 =
          trace w @
          [Gpio_set GPIO_PP5000_EN 1, Usleep 3000, Gpio_set GPIO_PP3300_DX_EN 1,
           Wireless_set WIRELESS_ON, Gpio_set GPIO_TOUCHSCREEN_RESET_L 1] @
          force_shutdown_events @
          [Wireless_set WIRELESS_OFF, Gpio_set GPIO_PP3300_DX_EN 0,
           Gpio_set GPIO_PP5000_EN 0, Gpio_set GPIO_TOUCHSCREEN_RESET_L 0]"
    by (simp add: chipset_force_shutdown_eq gpio_set_level_def usleep_def
        wireless_set_state_def emit_def MSEC_def)
  then show "sublist force_shutdown_events
               (new_events w (snd (power_handle_state b POWER_S3S0 w)))"
    unfolding r snd_conv by (rule sublist_force_shutdown)
qed

text \<open>
  C1: whenever \<^verbatim>\<open>power_handle_state\<close> finds a required rail absent in \<^verbatim>\<open>POWER_S3\<close> or
  \<^verbatim>\<open>POWER_S0\<close>, or a \<^verbatim>\<open>power_wait_signals\<close> of \<^verbatim>\<open>POWER_G3S5\<close>, \<^verbatim>\<open>POWER_S5S3\<close> or
  \<^verbatim>\<open>POWER_S3S0\<close> times out, the call runs \<^verbatim>\<open>chipset_force_shutdown\<close> and returns the
  state named for that fault (S3 to S3S5, S0 to S0S3, G3S5 to G3, S5S3 to S5G3, S3S0 to
  S3), which is never more on than the state it was called with.
\<close>

theorem fault_moves_toward_off:
  assumes "fault_detected b s w"
  shows "fst (power_handle_state b s w) = fault_target s \<and>
         on_rank (fst (power_handle_state b s w)) \<le> on_rank s \<and>
         sublist force_shutdown_events (new_events w (snd (power_handle_state b s w)))"
proof (cases s)
  case POWER_S3
  with assms fault_S3 [of b w] show ?thesis by simp
next
  case POWER_S0
  with assms fault_S0 [of b w] show ?thesis by simp
next
  case POWER_G3S5
  with assms fault_G3S5 [of b w] show ?thesis by simp
next
  case POWER_S5S3
  show ?thesis
  proof (cases "fst (power_wait_signals (IN_PGOOD_ALWAYS_ON b) w) = EC_SUCCESS")
    case True
    with assms POWER_S5S3 fault_S5S3_second [of b w] show ?thesis by simp
  next
    case False
    with POWER_S5S3 fault_S5S3_first [of b w] show ?thesis by simp
  qed
next
  case POWER_S3S0
  with assms fault_S3S0 [of b w] show ?thesis by simp
qed (use assms in simp_all)

theorem fault_moves_toward_off_witness:
  "fault_detected example_signal_bit POWER_S0 world_pp5000_lost \<and>
   fst (power_handle_state example_signal_bit POWER_S0 world_pp5000_lost) = POWER_S0S3 \<and>
   on_rank (fst (power_handle_state example_signal_bit POWER_S0 world_pp5000_lost)) \<le>
     on_rank POWER_S0 \<and>
   sublist force_shutdown_events
     (new_events world_pp5000_lost
        (snd (power_handle_state example_signal_bit POWER_S0 world_pp5000_lost)))"
proof -
  have h: "fault_detected example_signal_bit POWER_S0 world_pp5000_lost"
    by (simp add: power_has_signals_def world_pp5000_lost_def world_S0_def world_G3_def
        example_masks)
  from fault_moves_toward_off [OF h] h show ?thesis by simp
qed

section \<open>Steady state S0\<close>

lemma has_signals_two_bits:
  assumes "n < 32" "m < 32"
  shows "((x AND (push_bit n 1 OR push_bit m 1)) = (push_bit n 1 OR push_bit m (1::32 word))) =
         (bit x n \<and> bit x m)"
proof
  assume eq: "(x AND (push_bit n 1 OR push_bit m 1)) = (push_bit n 1 OR push_bit m (1::32 word))"
  have "bit (push_bit n 1 OR push_bit m (1::32 word)) n"
       "bit (push_bit n 1 OR push_bit m (1::32 word)) m"
    using assms by (simp_all add: bit_simps)
  then have "bit (x AND (push_bit n 1 OR push_bit m 1)) n"
            "bit (x AND (push_bit n 1 OR push_bit m 1)) m"
    by (simp_all only: eq)
  then show "bit x n \<and> bit x m"
    by (simp add: bit_and_iff)
next
  assume "bit x n \<and> bit x m"
  then show "(x AND (push_bit n 1 OR push_bit m 1)) = (push_bit n 1 OR push_bit m (1::32 word))"
    by (intro bit_eqI) (auto simp: bit_simps)
qed

lemma power_has_signals_S0_iff:
  assumes "b X86_PGOOD_S5 < 32" "b X86_PGOOD_PP5000 < 32"
  shows "power_has_signals (IN_PGOOD_S0 b) w =
           (bit (in_signals w) (b X86_PGOOD_S5) \<and> bit (in_signals w) (b X86_PGOOD_PP5000))"
  using has_signals_two_bits [OF assms, of "in_signals w"]
  by (simp add: power_has_signals_def mask_defs)

text \<open>
  C2, as the code has it: the rails that S0 requires are \<^verbatim>\<open>IN_PGOOD_S0\<close>, that is
  \<^verbatim>\<open>X86_PGOOD_S5\<close> and \<^verbatim>\<open>X86_PGOOD_PP5000\<close>.  From steady S0, when one of these two is
  absent from the mask the very next \<^verbatim>\<open>power_handle_state(POWER_S0)\<close> runs
  \<^verbatim>\<open>chipset_force_shutdown\<close> and returns \<^verbatim>\<open>POWER_S0S3\<close>.  When both are present and
  \<^verbatim>\<open>GPIO_PCH_SLP_S3_L\<close> is high the call returns \<^verbatim>\<open>POWER_S0\<close> and does nothing,
  whatever the other bits of the mask, \<^verbatim>\<open>X86_PGOOD_VCORE\<close> included.
\<close>

theorem power_handle_state_S0_rail_fault:
  assumes "b X86_PGOOD_S5 < 32" and "b X86_PGOOD_PP5000 < 32"
  shows "(\<not> bit (in_signals w) (b X86_PGOOD_S5) \<or> \<not> bit (in_signals w) (b X86_PGOOD_PP5000) \<longrightarrow>
            power_handle_state b POWER_S0 w = (POWER_S0S3, chipset_force_shutdown w)) \<and>
         (bit (in_signals w) (b X86_PGOOD_S5) \<and> bit (in_signals w) (b X86_PGOOD_PP5000) \<and>
          gpio w GPIO_PCH_SLP_S3_L \<longrightarrow>
            power_handle_state b POWER_S0 w = (POWER_S0, w))"
  using power_has_signals_S0_iff [OF assms, of w]
  by (auto simp: gpio_get_level_def)

theorem power_handle_state_S0_rail_fault_witness:
  "example_signal_bit X86_PGOOD_S5 < 32 \<and> example_signal_bit X86_PGOOD_PP5000 < 32 \<and>
   \<not> bit (in_signals world_pp5000_lost) (example_signal_bit X86_PGOOD_PP5000) \<and>
   power_handle_state example_signal_bit POWER_S0 world_pp5000_lost =
     (POWER_S0S3, chipset_force_shutdown world_pp5000_lost) \<and>
   bit (in_signals world_S0) (example_signal_bit X86_PGOOD_S5) \<and>
   bit (in_signals world_S0) (example_signal_bit X86_PGOOD_PP5000) \<and>
   gpio world_S0 GPIO_PCH_SLP_S3_L \<and>
   power_handle_state example_signal_bit POWER_S0 world_S0 = (POWER_S0, world_S0)"
proof -
  have b1: "example_signal_bit X86_PGOOD_S5 < 32"
    and b2: "example_signal_bit X86_PGOOD_PP5000 < 32"
    by simp_all
  have h1: "\<not> bit (in_signals world_pp5000_lost) (example_signal_bit X86_PGOOD_PP5000)"
    by (simp add: world_pp5000_lost_def world_S0_def world_G3_def mask_defs bit_simps)
  have h2: "bit (in_signals world_S0) (example_signal_bit X86_PGOOD_S5) \<and>
            bit (in_signals world_S0) (example_signal_bit X86_PGOOD_PP5000) \<and>
            gpio world_S0 GPIO_PCH_SLP_S3_L"
    by (simp add: world_S0_def world_G3_def mask_defs bit_simps lines_S0_def)
  from power_handle_state_S0_rail_fault [OF b1 b2, of world_pp5000_lost] h1
  have c1: "power_handle_state example_signal_bit POWER_S0 world_pp5000_lost =
      (POWER_S0S3, chipset_force_shutdown world_pp5000_lost)"
    by blast
  from power_handle_state_S0_rail_fault [OF b1 b2, of world_S0] h2
  have c2: "power_handle_state example_signal_bit POWER_S0 world_S0 = (POWER_S0, world_S0)"
    by blast
  from b1 b2 h1 h2 c1 c2 show ?thesis by blast
qed

text \<open>
  C2 as stated fails: running in S0 with every signal of \<^verbatim>\<open>IN_ALL_S0\<close> asserted except
  \<^verbatim>\<open>IN_PGOOD_VCORE\<close>, the next \<^verbatim>\<open>power_handle_state(POWER_S0)\<close> returns \<^verbatim>\<open>POWER_S0\<close>
  and leaves the world untouched: no \<^verbatim>\<open>chipset_force_shutdown\<close>, no \<^verbatim>\<open>POWER_S0S3\<close>.
\<close>

theorem power_handle_state_S0_vcore_counterexample:
  "(in_signals world_vcore_lost AND IN_PGOOD_VCORE example_signal_bit) = 0 \<and>
   (in_signals world_vcore_lost OR IN_PGOOD_VCORE example_signal_bit) =
     IN_ALL_S0 example_signal_bit \<and>
   power_handle_state example_signal_bit POWER_S0 world_vcore_lost =
     (POWER_S0, world_vcore_lost) \<and>
   fst (power_handle_state example_signal_bit POWER_S0 world_vcore_lost) \<noteq> POWER_S0S3 \<and>
   new_events world_vcore_lost
     (snd (power_handle_state example_signal_bit POWER_S0 world_vcore_lost)) = []"
  by (simp add: world_vcore_lost_def world_S0_def world_G3_def example_masks lines_S0_def
      power_has_signals_def gpio_get_level_def)

section \<open>The S3->S0 edge when the platform reset stays asserted\<close>

lemma S3S0_poll_exhausted:
  assumes ok: "fst (power_wait_signals (IN_PGOOD_S0 b) w) = EC_SUCCESS"
    and stuck: "\<forall>k<50. pltrst_asserted w k"
  shows "fst (power_handle_state b POWER_S3S0 w) = POWER_S0"
    and "restart_from_s5 (snd (power_handle_state b POWER_S3S0 w)) = 1"
    and "fake_pltrst_timeout (snd (power_handle_state b POWER_S3S0 w)) = 0"
    and "trace (snd (power_handle_state b POWER_S3S0 w)) =
           trace w @
           [Gpio_set GPIO_PP5000_EN 1, Usleep 3000, Gpio_set GPIO_PP3300_DX_EN 1,
            Wireless_set WIRELESS_ON, Gpio_set GPIO_TOUCHSCREEN_RESET_L 1,
            Gpio_set GPIO_VCORE_EN 1, Hook_notify HOOK_CHIPSET_RESUME,
            Disable_sleep SLEEP_MASK_AP_RUN, Msleep 15,
            Gpio_set GPIO_CPU_PROCHOT (throttle_cpu w),
            Gpio_set GPIO_PCH_SYS_PWROK 1, Gpio_set GPIO_PCH_CORE_PWROK 1] @
           replicate 50 (Usleep 1000) @
           [Cprints ''power PLTRST# timeout'' [], Power_button_pch_release] @
           force_shutdown_events"
proof -
  define w1 where "w1 = gpio_set_level GPIO_TOUCHSCREEN_RESET_L 1
               (wireless_set_state WIRELESS_ON
                 (gpio_set_level GPIO_PP3300_DX_EN 1
                   (usleep (3 * MSEC) (gpio_set_level GPIO_PP5000_EN 1 w))))"
  define w2 where "w2 = snd (power_wait_signals (IN_PGOOD_S0 b) w1)"
  define w3 where "w3 = gpio_set_level GPIO_PCH_CORE_PWROK 1
               (gpio_set_level GPIO_PCH_SYS_PWROK 1
                 (gpio_set_level GPIO_CPU_PROCHOT
                    (throttle_cpu (msleep 15 (disable_sleep SLEEP_MASK_AP_RUN
                       (hook_notify HOOK_CHIPSET_RESUME (gpio_set_level GPIO_VCORE_EN 1 w2)))))
                    (msleep 15 (disable_sleep SLEEP_MASK_AP_RUN
                       (hook_notify HOOK_CHIPSET_RESUME (gpio_set_level GPIO_VCORE_EN 1 w2))))))"
  define w4 where "w4 = w3\<lparr>trace := trace w3 @ replicate 50 (Usleep MSEC)\<rparr>"
  define w5 where "w5 = chipset_force_shutdown (power_button_pch_release
               (cprints ''power PLTRST# timeout'' [] w4))
               \<lparr>restart_from_s5 := 1, fake_pltrst_timeout := 0\<rparr>"
  have "fst (power_wait_signals (IN_PGOOD_S0 b) w1) =
          fst (power_wait_signals (IN_PGOOD_S0 b) w)"
    unfolding w1_def by (rule wait_result_cong) (simp_all add: collab_defs)
  with ok have t: "fst (power_wait_signals (IN_PGOOD_S0 b) w1) = EC_SUCCESS"
    by simp
  have p3: "pltrst_asserted w3 = pltrst_asserted w"
    by (simp add: w3_def w2_def w1_def gpio_set_level_def usleep_def msleep_def
        wireless_set_state_def hook_notify_def disable_sleep_def emit_def)
  have poll: "pltrst_poll 0 w3 = (50, w4)"
    using pltrst_poll_exhausted [of 0 w3] stuck by (simp add: p3 w4_def)
  have r: "power_handle_state b POWER_S3S0 w = (POWER_S0, w5)"
    using t poll
    by (simp add: Let_def split_beta w1_def [symmetric] w2_def [symmetric]
        w3_def [symmetric] w5_def)
  show "fst (power_handle_state b POWER_S3S0 w) = POWER_S0"
    unfolding r by simp
  show "restart_from_s5 (snd (power_handle_state b POWER_S3S0 w)) = 1"
    unfolding r by (simp add: w5_def)
  show "fake_pltrst_timeout (snd (power_handle_state b POWER_S3S0 w)) = 0"
    unfolding r by (simp add: w5_def)
  have "trace w1 = trace w @
           [Gpio_set GPIO_PP5000_EN 1, Usleep 3000, Gpio_set GPIO_PP3300_DX_EN 1,
            Wireless_set WIRELESS_ON, Gpio_set GPIO_TOUCHSCREEN_RESET_L 1]"
    by (simp add: w1_def gpio_set_level_def usleep_def wireless_set_state_def emit_def MSEC_def)
  moreover have "trace w2 = trace w1"
    by (simp add: w2_def)
  moreover have "throttle_cpu w2 = throttle_cpu w"
    by (simp add: w2_def w1_def gpio_set_level_def usleep_def wireless_set_state_def emit_def)
  then have "trace w3 = trace w2 @
           [Gpio_set GPIO_VCORE_EN 1, Hook_notify HOOK_CHIPSET_RESUME,
            Disable_sleep SLEEP_MASK_AP_RUN, Msleep 15,
            Gpio_set GPIO_CPU_PROCHOT (throttle_cpu w),
            Gpio_set GPIO_PCH_SYS_PWROK 1, Gpio_set GPIO_PCH_CORE_PWROK 1]"
    by (simp add: w3_def gpio_set_level_def msleep_def hook_notify_def disable_sleep_def
        emit_def)
  moreover have "trace w5 = trace w3 @ replicate 50 (Usleep 1000) @
           [Cprints ''power PLTRST# timeout'' [], Power_button_pch_release] @
           force_shutdown_events"
    by (simp add: w5_def w4_def chipset_force_shutdown_eq power_button_pch_release_def
        cprints_def emit_def MSEC_def)
  ultimately show "trace (snd (power_handle_state b POWER_S3S0 w)) =
           trace w @
           [Gpio_set GPIO_PP5000_EN 1, Usleep 3000, Gpio_set GPIO_PP3300_DX_EN 1,
            Wireless_set WIRELESS_ON, Gpio_set GPIO_TOUCHSCREEN_RESET_L 1,
            Gpio_set GPIO_VCORE_EN 1, Hook_notify HOOK_CHIPSET_RESUME,
            Disable_sleep SLEEP_MASK_AP_RUN, Msleep 15,
            Gpio_set GPIO_CPU_PROCHOT (throttle_cpu w),
            Gpio_set GPIO_PCH_SYS_PWROK 1, Gpio_set GPIO_PCH_CORE_PWROK 1] @
           replicate 50 (Usleep 1000) @
           [Cprints ''power PLTRST# timeout'' [], Power_button_pch_release] @
           force_shutdown_events"
    unfolding r by simp
qed

lemma S3S5_restart:
  assumes "restart_from_s5 w \<noteq> 0"
  shows "fst (power_handle_state b POWER_S3S5 w) = POWER_G3S5"
    and "restart_from_s5 (snd (power_handle_state b POWER_S3S5 w)) = 0"
    and "new_events w (snd (power_handle_state b POWER_S3S5 w)) =
           s3s5_shutdown_events @
           [Cprints ''power restart from S5'' [], Msleep 100, Power_button_pch_pulse]"
  using assms by (simp_all add: Let_def collab_defs s3s5_shutdown_events_def)

lemma restart_flag_collab:
  "restart_from_s5 (gpio_set_level signal x w) = restart_from_s5 w"
  "restart_from_s5 (cprints fmt args w) = restart_from_s5 w"
  "restart_from_s5 (msleep n w) = restart_from_s5 w"
  "restart_from_s5 (usleep n w) = restart_from_s5 w"
  "restart_from_s5 (udelay n w) = restart_from_s5 w"
  "restart_from_s5 (hook_notify h w) = restart_from_s5 w"
  "restart_from_s5 (wireless_set_state ws w) = restart_from_s5 w"
  "restart_from_s5 (disable_sleep m w) = restart_from_s5 w"
  "restart_from_s5 (enable_sleep m w) = restart_from_s5 w"
  "restart_from_s5 (power_button_pch_release w) = restart_from_s5 w"
  "restart_from_s5 (power_button_pch_pulse w) = restart_from_s5 w"
  "restart_from_s5 (chipset_force_shutdown w) = restart_from_s5 w"
  by (simp_all add: collab_defs chipset_force_shutdown_def)

lemma restart_flag_frame:
  "restart_from_s5 (snd (power_handle_state b POWER_S0 w)) = restart_from_s5 w"
  "restart_from_s5 (snd (power_handle_state b POWER_S0S3 w)) = restart_from_s5 w"
  "restart_from_s5 (snd (power_handle_state b POWER_S3 w)) = restart_from_s5 w"
  by (simp_all add: Let_def restart_flag_collab)

lemma restart_flag_kept:
  "s \<noteq> POWER_S3S5 \<Longrightarrow> restart_from_s5 w = 1 \<Longrightarrow>
   restart_from_s5 (snd (power_handle_state b s w)) = 1"
  by (cases s) (simp_all add: Let_def split_beta restart_flag_collab)

lemma env_step_fields [simp]:
  "restart_from_s5 (env_step v w) = restart_from_s5 w"
  "trace (env_step v w) = trace w"
  "in_signals (env_step v w) = in_signals v"
  by (simp_all add: env_step_def)

lemma run_to_S3S5_keeps_flag:
  "restart_from_s5 w = 1 \<Longrightarrow> restart_from_s5 (snd (run_to_S3S5 b vs s w)) = 1"
proof (induction vs arbitrary: s w)
  case Nil
  then show ?case by simp
next
  case (Cons v vs)
  show ?case
  proof (cases "s = POWER_S3S5")
    case True
    with Cons.prems show ?thesis by simp
  next
    case False
    let ?r = "power_handle_state b s (env_step v w)"
    have "restart_from_s5 (snd ?r) = 1"
      using False Cons.prems by (intro restart_flag_kept) simp_all
    then have "restart_from_s5 (snd (run_to_S3S5 b vs (fst ?r) (snd ?r))) = 1"
      by (rule Cons.IH)
    then show ?thesis using False by (simp add: split_beta)
  qed
qed

lemma S0S3_to_S3: "fst (power_handle_state b POWER_S0S3 w) = POWER_S3"
  by (simp add: Let_def)

lemma walk_S0_to_S3S5:
  assumes "\<not> power_has_signals (IN_PGOOD_S0 b) v1"
    and "\<not> power_has_signals (IN_PGOOD_S3 b) v3"
  shows "fst (run_to_S3S5 b [v1, v2, v3] POWER_S0 w) = POWER_S3S5"
proof -
  let ?r1 = "power_handle_state b POWER_S0 (env_step v1 w)"
  let ?r2 = "power_handle_state b POWER_S0S3 (env_step v2 (snd ?r1))"
  let ?r3 = "power_handle_state b POWER_S3 (env_step v3 (snd ?r2))"
  have "\<not> power_has_signals (IN_PGOOD_S0 b) (env_step v1 w)"
    using assms(1) by (simp add: power_has_signals_def)
  then have "?r1 = (POWER_S0S3, chipset_force_shutdown (env_step v1 w))"
    by (rule fault_S0 (1))
  then have s1: "fst ?r1 = POWER_S0S3"
    by (simp only: fst_conv)
  have s2: "fst ?r2 = POWER_S3"
    by (rule S0S3_to_S3)
  have "\<not> power_has_signals (IN_PGOOD_S3 b) (env_step v3 (snd ?r2))"
    using assms(2) by (simp add: power_has_signals_def)
  then have s3: "fst ?r3 = POWER_S3S5"
    by (rule fault_S3 (1))
  have "run_to_S3S5 b [v1, v2, v3] POWER_S0 w =
          run_to_S3S5 b [v2, v3] (fst ?r1) (snd ?r1)"
    by (simp add: split_beta del: power_handle_state.simps)
  also have "\<dots> = run_to_S3S5 b [v3] (fst ?r2) (snd ?r2)"
    unfolding s1 by (simp add: split_beta del: power_handle_state.simps)
  also have "\<dots> = run_to_S3S5 b [] (fst ?r3) (snd ?r3)"
    unfolding s2 by (simp add: split_beta del: power_handle_state.simps)
  finally show ?thesis
    using s3 by (simp del: power_handle_state.simps)
qed

lemma world_pltrst_stuck_facts:
  "fst (power_wait_signals (IN_PGOOD_S0 example_signal_bit) world_pltrst_stuck) = EC_SUCCESS"
  "pltrst_asserted world_pltrst_stuck = always_asserted"
  "\<forall>k<50. pltrst_asserted world_pltrst_stuck k"
  by (simp_all add: power_wait_signals_def world_pltrst_stuck_def world_S3_def world_G3_def
      example_masks always_asserted_def)

lemma world_rails_lost_facts:
  "\<not> power_has_signals (IN_PGOOD_S0 example_signal_bit) world_rails_lost"
  "\<not> power_has_signals (IN_PGOOD_S3 example_signal_bit) world_rails_lost"
  by (simp_all add: power_has_signals_def world_rails_lost_def world_S0_def world_G3_def
      example_masks)

text \<open>
  C3, as the code has it: on the \<^verbatim>\<open>POWER_S3S0\<close> edge, once the non-core rails are good,
  if the platform reset is still asserted at each of the 50 polls, one millisecond
  apart, \<^verbatim>\<open>power_handle_state\<close> releases the power button, runs \<^verbatim>\<open>chipset_force_shutdown\<close>, sets
  \<^verbatim>\<open>restart_from_s5\<close> and returns \<^verbatim>\<open>POWER_S0\<close> (not \<^verbatim>\<open>POWER_S3\<close>).  However the
  loop runs on from there, and whatever changes around it, the flag is still set when
  the loop next comes to \<^verbatim>\<open>POWER_S3S5\<close>; once the rails are gone three calls bring it
  there, through \<^verbatim>\<open>POWER_S0S3\<close> and \<^verbatim>\<open>POWER_S3\<close>.  That \<^verbatim>\<open>POWER_S3S5\<close> transition
  clears the flag, pulses the power button and returns \<^verbatim>\<open>POWER_G3S5\<close> instead of
  stopping at S5.
\<close>

theorem pltrst_timeout_restarts_from_s5:
  assumes "fst (power_wait_signals (IN_PGOOD_S0 b) w) = EC_SUCCESS"
    and "\<forall>k<50. pltrst_asserted w k"
  shows "fst (power_handle_state b POWER_S3S0 w) = POWER_S0 \<and>
         restart_from_s5 (snd (power_handle_state b POWER_S3S0 w)) = 1 \<and>
         new_events w (snd (power_handle_state b POWER_S3S0 w)) =
           [Gpio_set GPIO_PP5000_EN 1, Usleep 3000, Gpio_set GPIO_PP3300_DX_EN 1,
            Wireless_set WIRELESS_ON, Gpio_set GPIO_TOUCHSCREEN_RESET_L 1,
            Gpio_set GPIO_VCORE_EN 1, Hook_notify HOOK_CHIPSET_RESUME,
            Disable_sleep SLEEP_MASK_AP_RUN, Msleep 15,
            Gpio_set GPIO_CPU_PROCHOT (throttle_cpu w),
            Gpio_set GPIO_PCH_SYS_PWROK 1, Gpio_set GPIO_PCH_CORE_PWROK 1] @
           replicate 50 (Usleep 1000) @
           [Cprints ''power PLTRST# timeout'' [], Power_button_pch_release] @
           force_shutdown_events \<and>
         restart_from_s5 (snd (run_to_S3S5 b vs
           (fst (power_handle_state b POWER_S3S0 w))
           (snd (power_handle_state b POWER_S3S0 w)))) = 1 \<and>
         (fst (run_to_S3S5 b vs
            (fst (power_handle_state b POWER_S3S0 w))
            (snd (power_handle_state b POWER_S3S0 w))) = POWER_S3S5 \<longrightarrow>
          fst (power_handle_state b POWER_S3S5
                (env_step v (snd (run_to_S3S5 b vs
                   (fst (power_handle_state b POWER_S3S0 w))
                   (snd (power_handle_state b POWER_S3S0 w)))))) = POWER_G3S5 \<and>
          restart_from_s5 (snd (power_handle_state b POWER_S3S5
                (env_step v (snd (run_to_S3S5 b vs
                   (fst (power_handle_state b POWER_S3S0 w))
                   (snd (power_handle_state b POWER_S3S0 w))))))) = 0 \<and>
          new_events
            (env_step v (snd (run_to_S3S5 b vs
               (fst (power_handle_state b POWER_S3S0 w))
               (snd (power_handle_state b POWER_S3S0 w)))))
            (snd (power_handle_state b POWER_S3S5
                (env_step v (snd (run_to_S3S5 b vs
                   (fst (power_handle_state b POWER_S3S0 w))
                   (snd (power_handle_state b POWER_S3S0 w))))))) =
            s3s5_shutdown_events @
            [Cprints ''power restart from S5'' [], Msleep 100, Power_button_pch_pulse]) \<and>
         (\<not> power_has_signals (IN_PGOOD_S0 b) v1 \<and> \<not> power_has_signals (IN_PGOOD_S3 b) v3 \<longrightarrow>
          fst (run_to_S3S5 b [v1, v2, v3]
                 (fst (power_handle_state b POWER_S3S0 w))
                 (snd (power_handle_state b POWER_S3S0 w))) = POWER_S3S5)"
proof -
  define r1 where "r1 = power_handle_state b POWER_S3S0 w"
  define r2 where "r2 = run_to_S3S5 b vs (fst r1) (snd r1)"
  define w3 where "w3 = env_step v (snd r2)"
  note a = S3S0_poll_exhausted [OF assms, folded r1_def]
  have n: "new_events w (snd r1) =
           [Gpio_set GPIO_PP5000_EN 1, Usleep 3000, Gpio_set GPIO_PP3300_DX_EN 1,
            Wireless_set WIRELESS_ON, Gpio_set GPIO_TOUCHSCREEN_RESET_L 1,
            Gpio_set GPIO_VCORE_EN 1, Hook_notify HOOK_CHIPSET_RESUME,
            Disable_sleep SLEEP_MASK_AP_RUN, Msleep 15,
            Gpio_set GPIO_CPU_PROCHOT (throttle_cpu w),
            Gpio_set GPIO_PCH_SYS_PWROK 1, Gpio_set GPIO_PCH_CORE_PWROK 1] @
           replicate 50 (Usleep 1000) @
           [Cprints ''power PLTRST# timeout'' [], Power_button_pch_release] @
           force_shutdown_events"
    using a(4) by (rule new_events_append)
  have k: "restart_from_s5 (snd r2) = 1"
    unfolding r2_def using a(2) by (rule run_to_S3S5_keeps_flag)
  then have "restart_from_s5 w3 \<noteq> 0"
    by (simp add: w3_def)
  note c = S3S5_restart [OF this, of b]
  have d: "\<not> power_has_signals (IN_PGOOD_S0 b) v1 \<and> \<not> power_has_signals (IN_PGOOD_S3 b) v3 \<longrightarrow>
           fst (run_to_S3S5 b [v1, v2, v3] (fst r1) (snd r1)) = POWER_S3S5"
    unfolding a(1) using walk_S0_to_S3S5 [of b v1 v3 v2 "snd r1"] by blast
  from a(1) a(2) n k c d show ?thesis
    unfolding r1_def [symmetric] r2_def [symmetric] w3_def [symmetric] by blast
qed

theorem pltrst_timeout_restarts_from_s5_witness:
  "fst (power_wait_signals (IN_PGOOD_S0 example_signal_bit) world_pltrst_stuck) = EC_SUCCESS \<and>
   pltrst_asserted world_pltrst_stuck = always_asserted \<and>
   fst (power_handle_state example_signal_bit POWER_S3S0 world_pltrst_stuck) = POWER_S0 \<and>
   restart_from_s5
     (snd (power_handle_state example_signal_bit POWER_S3S0 world_pltrst_stuck)) = 1 \<and>
   fst (run_to_S3S5 example_signal_bit [world_rails_lost, world_rails_lost, world_rails_lost]
          (fst (power_handle_state example_signal_bit POWER_S3S0 world_pltrst_stuck))
          (snd (power_handle_state example_signal_bit POWER_S3S0 world_pltrst_stuck))) =
     POWER_S3S5 \<and>
   fst (power_handle_state example_signal_bit POWER_S3S5
          (env_step world_rails_lost
             (snd (run_to_S3S5 example_signal_bit
                     [world_rails_lost, world_rails_lost, world_rails_lost]
                     (fst (power_handle_state example_signal_bit POWER_S3S0 world_pltrst_stuck))
                     (snd (power_handle_state example_signal_bit POWER_S3S0
                             world_pltrst_stuck)))))) =
     POWER_G3S5"
proof -
  note t = pltrst_timeout_restarts_from_s5
             [OF world_pltrst_stuck_facts(1) world_pltrst_stuck_facts(3),
              where vs = "[world_rails_lost, world_rails_lost, world_rails_lost]"
                and v = world_rails_lost]
  from t have s0: "fst (power_handle_state example_signal_bit POWER_S3S0 world_pltrst_stuck) =
      POWER_S0"
    by blast
  have h: "fst (run_to_S3S5 example_signal_bit
                  [world_rails_lost, world_rails_lost, world_rails_lost]
                  (fst (power_handle_state example_signal_bit POWER_S3S0 world_pltrst_stuck))
                  (snd (power_handle_state example_signal_bit POWER_S3S0 world_pltrst_stuck))) =
           POWER_S3S5"
    unfolding s0 by (rule walk_S0_to_S3S5 [OF world_rails_lost_facts])
  from t h world_pltrst_stuck_facts(1,2) show ?thesis by blast
qed

text \<open>
  C3 as stated fails: with the platform reset asserted at every poll, the
  \<^verbatim>\<open>POWER_S3S0\<close> call sets \<^verbatim>\<open>restart_from_s5\<close> but returns \<^verbatim>\<open>POWER_S0\<close>, not
  \<^verbatim>\<open>POWER_S3\<close>.
\<close>

theorem pltrst_timeout_returns_S0_counterexample:
  "fst (power_wait_signals (IN_PGOOD_S0 example_signal_bit) world_pltrst_stuck) = EC_SUCCESS \<and>
   pltrst_asserted world_pltrst_stuck = always_asserted \<and>
   restart_from_s5
     (snd (power_handle_state example_signal_bit POWER_S3S0 world_pltrst_stuck)) = 1 \<and>
   fst (power_handle_state example_signal_bit POWER_S3S0 world_pltrst_stuck) = POWER_S0 \<and>
   fst (power_handle_state example_signal_bit POWER_S3S0 world_pltrst_stuck) \<noteq> POWER_S3"
proof -
  note a = S3S0_poll_exhausted [OF world_pltrst_stuck_facts(1) world_pltrst_stuck_facts(3)]
  have "fst (power_handle_state example_signal_bit POWER_S3S0 world_pltrst_stuck) \<noteq> POWER_S3"
    unfolding a(1) by simp
  with a(1) a(2) world_pltrst_stuck_facts(1,2) show ?thesis by blast
qed

section \<open>Every call returns, after boundedly many steps\<close>

lemma pltrst_poll_index:
  "i \<le> 50 \<Longrightarrow> fst (pltrst_poll i w) \<le> 50"
proof (induction i w rule: pltrst_poll.induct)
  case (1 i w)
  show ?case
  proof (cases "i < 50 \<and> pltrst_asserted w (nat i)")
    case True
    then have "pltrst_poll i w = pltrst_poll (i + 1) (usleep MSEC w)"
      by (subst pltrst_poll.simps) (simp add: collab_defs)
    moreover have "fst (pltrst_poll (i + 1) (usleep MSEC w)) \<le> 50"
      using True by (intro 1(1) [OF _ refl]) (auto simp: collab_defs)
    ultimately show ?thesis by simp
  next
    case False
    then have "fst (pltrst_poll i w) = i"
      by (subst pltrst_poll.simps) (auto simp: collab_defs)
    with 1(2) show ?thesis by simp
  qed
qed

lemma S3S0_trace_length:
  "length (trace (snd (power_handle_state b POWER_S3S0 w))) \<le> length (trace w) + 67"
proof -
  define w1 where "w1 = gpio_set_level GPIO_TOUCHSCREEN_RESET_L 1
               (wireless_set_state WIRELESS_ON
                 (gpio_set_level GPIO_PP3300_DX_EN 1
                   (usleep (3 * MSEC) (gpio_set_level GPIO_PP5000_EN 1 w))))"
  define w2 where "w2 = snd (power_wait_signals (IN_PGOOD_S0 b) w1)"
  define w3 where "w3 = gpio_set_level GPIO_PCH_CORE_PWROK 1
               (gpio_set_level GPIO_PCH_SYS_PWROK 1
                 (gpio_set_level GPIO_CPU_PROCHOT
                    (throttle_cpu (msleep 15 (disable_sleep SLEEP_MASK_AP_RUN
                       (hook_notify HOOK_CHIPSET_RESUME (gpio_set_level GPIO_VCORE_EN 1 w2)))))
                    (msleep 15 (disable_sleep SLEEP_MASK_AP_RUN
                       (hook_notify HOOK_CHIPSET_RESUME (gpio_set_level GPIO_VCORE_EN 1 w2))))))"
  define w4 where "w4 = gpio_set_level GPIO_TOUCHSCREEN_RESET_L 0
               (gpio_set_level GPIO_PP5000_EN 0
                 (gpio_set_level GPIO_PP3300_DX_EN 0
                   (wireless_set_state WIRELESS_OFF (chipset_force_shutdown w2))))"
  have l1: "length (trace w1) = length (trace w) + 5"
    by (simp add: w1_def gpio_set_level_def usleep_def wireless_set_state_def emit_def)
  have l2: "length (trace w2) = length (trace w1)"
    by (simp add: w2_def)
  have l3: "length (trace w3) = length (trace w2) + 7"
    by (simp add: w3_def gpio_set_level_def msleep_def hook_notify_def disable_sleep_def
        emit_def)
  have l4: "length (trace w4) = length (trace w2) + 7"
    by (simp add: w4_def gpio_set_level_def wireless_set_state_def emit_def
        chipset_force_shutdown_eq force_shutdown_events_def)
  have lp: "length (trace (snd (pltrst_poll 0 w3))) \<le> length (trace w3) + 50"
    using pltrst_poll_length [of 0 w3] by simp
  show ?thesis
  proof (cases "fst (power_wait_signals (IN_PGOOD_S0 b) w1) = EC_SUCCESS")
    case False
    then have "power_handle_state b POWER_S3S0 w = (POWER_S3, w4)"
      by (simp add: Let_def split_beta w1_def [symmetric] w2_def [symmetric] w4_def)
    then show ?thesis using l1 l2 l4 by simp
  next
    case True
    then have "snd (power_handle_state b POWER_S3S0 w) =
        (if fst (pltrst_poll 0 w3) < 50 \<and> fake_pltrst_timeout w3 = 0
         then cprints ''power PLTRST# deasserted'' [] (snd (pltrst_poll 0 w3))
         else chipset_force_shutdown (power_button_pch_release
                (cprints ''power PLTRST# timeout'' [] (snd (pltrst_poll 0 w3))))
              \<lparr>restart_from_s5 := 1, fake_pltrst_timeout := 0\<rparr>)"
      by (simp add: Let_def split_beta w1_def [symmetric] w2_def [symmetric]
          w3_def [symmetric])
    then show ?thesis using l1 l2 l3 lp
      by (simp add: cprints_def power_button_pch_release_def emit_def
          chipset_force_shutdown_eq force_shutdown_events_def)
  qed
qed

lemma handle_state_trace_length:
  "length (trace (snd (power_handle_state b s w))) \<le> length (trace w) + 67"
proof (cases s)
  case POWER_S3S0
  then show ?thesis using S3S0_trace_length [of b w] by simp
qed (simp_all add: Let_def split_beta collab_defs chipset_force_shutdown_def)

lemma handle_state_stays_iff:
  "(fst (power_handle_state b s w) = s) = (\<not> outgoing_condition b s w)"
  by (cases s) (simp_all add: Let_def split_beta collab_defs)

text \<open>
  C4: for every state of the enum and every signal mask, \<^verbatim>\<open>power_handle_state\<close>
  returns one of the ten states of \<^verbatim>\<open>enum power_state\<close> after at most 67 calls to its
  collaborators; the platform-reset loop, its only loop, stops with its index at most
  50 after at most 50 sleeps; and the state returned is the state passed in exactly when
  no outgoing condition of that state holds.
\<close>

theorem power_handle_state_returns:
  "fst (power_handle_state b s w) \<in> set power_states \<and>
   length (new_events w (snd (power_handle_state b s w))) \<le> 67 \<and>
   fst (pltrst_poll 0 w) \<le> 50 \<and>
   length (new_events w (snd (pltrst_poll 0 w))) \<le> 50 \<and>
   (fst (power_handle_state b s w) = s) = (\<not> outgoing_condition b s w)"
proof -
  have "fst (power_handle_state b s w) \<in> set power_states"
    by (cases "fst (power_handle_state b s w)") (simp_all add: power_states_def)
  moreover have "length (new_events w (snd (power_handle_state b s w))) \<le> 67"
    using handle_state_trace_length [of b s w] by (simp add: new_events_def)
  moreover have "fst (pltrst_poll 0 w) \<le> 50"
    by (rule pltrst_poll_index) simp
  moreover have "length (new_events w (snd (pltrst_poll 0 w))) \<le> 50"
    using pltrst_poll_length [of 0 w] by (simp add: new_events_def)
  ultimately show ?thesis
    using handle_state_stays_iff [of b s w] by blast
qed

theorem power_handle_state_returns_witness:
  "\<not> outgoing_condition example_signal_bit POWER_S5 world_G3 \<and>
   fst (power_handle_state example_signal_bit POWER_S5 world_G3) = POWER_S5 \<and>
   outgoing_condition example_signal_bit POWER_S0 world_pp5000_lost \<and>
   fst (power_handle_state example_signal_bit POWER_S0 world_pp5000_lost) \<noteq> POWER_S0 \<and>
   length (new_events world_pltrst_stuck
     (snd (power_handle_state example_signal_bit POWER_S3S0 world_pltrst_stuck))) \<le> 67"
proof -
  have h1: "\<not> outgoing_condition example_signal_bit POWER_S5 world_G3"
    by (simp add: world_G3_def lines_G3_def)
  have h2: "outgoing_condition example_signal_bit POWER_S0 world_pp5000_lost"
    by (simp add: power_has_signals_def world_pp5000_lost_def world_S0_def world_G3_def
        example_masks)
  from h1 power_handle_state_returns [of example_signal_bit POWER_S5 world_G3]
  have c1: "fst (power_handle_state example_signal_bit POWER_S5 world_G3) = POWER_S5"
    by blast
  from h2 power_handle_state_returns [of example_signal_bit POWER_S0 world_pp5000_lost]
  have c2: "fst (power_handle_state example_signal_bit POWER_S0 world_pp5000_lost) \<noteq> POWER_S0"
    by blast
  from power_handle_state_returns [of example_signal_bit POWER_S3S0 world_pltrst_stuck]
  have c3: "length (new_events world_pltrst_stuck
      (snd (power_handle_state example_signal_bit POWER_S3S0 world_pltrst_stuck))) \<le> 67"
    by blast
  from h1 h2 c1 c2 c3 show ?thesis by blast
qed

end
